theory Spec2Isabelle
  imports Complex_Main "HOL-Library.Monad_Syntax"
begin

section \<open>Strings as the Python code uses them\<close>

text \<open>
  The register is read from CSV or Excel files; the date, time and status cells are Python
  strings. They are modelled as \<open>string\<close> (a list of 8-bit characters), so the model covers
  ASCII text: the whitespace class is the ASCII part of \<^verbatim>\<open>str.isspace\<close> (which is also the
  class \<^verbatim>\<open>\s\<close> of the \<^verbatim>\<open>re\<close> module), the digit class is \<^verbatim>\<open>0-9\<close>, the word class is
  \<^verbatim>\<open>[A-Za-z0-9_]\<close>, and \<^verbatim>\<open>lower\<close> changes \<^verbatim>\<open>A-Z\<close> only.
\<close>

definition is_space :: "char \<Rightarrow> bool" where
  "is_space c \<longleftrightarrow> c \<in> {CHR '' '', CHR 0x09, CHR 0x0A, CHR 0x0B, CHR 0x0C, CHR 0x0D,
                      CHR 0x1C, CHR 0x1D, CHR 0x1E, CHR 0x1F}"

definition is_digit :: "char \<Rightarrow> bool" where
  "is_digit c \<longleftrightarrow> 48 \<le> (of_char c :: nat) \<and> (of_char c :: nat) \<le> 57"

definition is_upper :: "char \<Rightarrow> bool" where
  "is_upper c \<longleftrightarrow> 65 \<le> (of_char c :: nat) \<and> (of_char c :: nat) \<le> 90"

definition is_lower :: "char \<Rightarrow> bool" where
  "is_lower c \<longleftrightarrow> 97 \<le> (of_char c :: nat) \<and> (of_char c :: nat) \<le> 122"

definition is_word_char :: "char \<Rightarrow> bool" where
  "is_word_char c \<longleftrightarrow> is_upper c \<or> is_lower c \<or> is_digit c \<or> c = CHR ''_''"

definition lower_char :: "char \<Rightarrow> char" where
  "lower_char c = (if is_upper c then char_of ((of_char c :: nat) + 32) else c)"

text \<open>\<^verbatim>\<open>s.lower()\<close>, \<^verbatim>\<open>s.strip()\<close> and \<^verbatim>\<open>s.replace(".", "")\<close>.\<close>

definition lower :: "string \<Rightarrow> string" where
  "lower s = map lower_char s"

definition lstrip :: "string \<Rightarrow> string" where
  "lstrip s = dropWhile is_space s"

definition rstrip :: "string \<Rightarrow> string" where
  "rstrip s = rev (dropWhile is_space (rev s))"

definition strip :: "string \<Rightarrow> string" where
  "strip s = rstrip (lstrip s)"

definition remove_dots :: "string \<Rightarrow> string" where
  "remove_dots s = filter (\<lambda>c. c \<noteq> CHR ''.'') s"

text \<open>\<^verbatim>\<open>sub in s\<close> on strings.\<close>

fun str_contains :: "string \<Rightarrow> string \<Rightarrow> bool" where
  "str_contains sub [] = (sub = [])"
| "str_contains sub (c # cs) = (take (length sub) (c # cs) = sub \<or> str_contains sub cs)"

text \<open>\<^verbatim>\<open>int(g)\<close> on a group of decimal digits.\<close>

definition digit_val :: "char \<Rightarrow> nat" where
  "digit_val c = (of_char c :: nat) - 48"

definition int_of_digits :: "string \<Rightarrow> nat" where
  "int_of_digits ds = foldl (\<lambda>a c. 10 * a + digit_val c) 0 ds"

text \<open>
  The format specifications \<^verbatim>\<open>{n:02d}\<close> and \<^verbatim>\<open>{n:04d}\<close> of an f-string, on a
  non-negative integer: the decimal digits, padded with zeros on the left up to the width
  (a longer number is not cut).
\<close>

fun str_nat :: "nat \<Rightarrow> string" where
  "str_nat n = (if n < 10 then [char_of (48 + n)]
                else str_nat (n div 10) @ [char_of (48 + n mod 10)])"

declare str_nat.simps [simp del]

definition fmt_d :: "nat \<Rightarrow> nat \<Rightarrow> string" where
  "fmt_d w n = replicate (w - length (str_nat n)) (CHR ''0'') @ str_nat n"

section \<open>The regular expressions of the date and time parser\<close>

text \<open>
  Each compiled pattern is anchored at both ends and is a sequence of pieces over disjoint
  character classes (spaces, digits, one separator, the letters of the am/pm marker), so a
  match, when there is one, is unique and backtracking cannot find another: a group
  \<^verbatim>\<open>\d{lo,hi}\<close> takes the whole run of digits in front of it, and the run must have between
  \<open>lo\<close> and \<open>hi\<close> digits because the piece after it never starts with a digit. The matchers
  return the groups of the match, or \<open>None\<close> where \<^verbatim>\<open>match\<close> returns \<^verbatim>\<open>None\<close>.
\<close>

definition digits_run :: "nat \<Rightarrow> nat \<Rightarrow> string \<Rightarrow> (string \<times> string) option" where
  "digits_run lo hi s =
     (let ds = takeWhile is_digit s in
      if lo \<le> length ds \<and> length ds \<le> hi then Some (ds, dropWhile is_digit s) else None)"

definition lit :: "char \<Rightarrow> string \<Rightarrow> string option" where
  "lit c s = (case s of [] \<Rightarrow> None | x # r \<Rightarrow> if x = c then Some r else None)"

text \<open>\<^verbatim>\<open>\s*$\<close>: only spaces are left (\<^verbatim>\<open>$\<close> also matches before a last newline, which
  \<^verbatim>\<open>\s*\<close> has taken by then).\<close>

definition at_end :: "string \<Rightarrow> bool" where
  "at_end s = list_all is_space s"

text \<open>
  \<^verbatim>\<open>^\s*(\d{1,2})/(\d{1,2})/(\d{2,4})\s*$\<close> with the separator \<open>sep\<close> in place of the
  slash: \<^verbatim>\<open>_date_ddmmyyyy_slash\<close> and \<^verbatim>\<open>_date_ddmmyyyy_dash\<close>.
\<close>

definition match_date_ddmmyyyy :: "char \<Rightarrow> string \<Rightarrow> (string \<times> string \<times> string) option" where
  "match_date_ddmmyyyy sep s =
     do {
       (g1, r1) \<leftarrow> digits_run 1 2 (dropWhile is_space s);
       r2 \<leftarrow> lit sep r1;
       (g2, r3) \<leftarrow> digits_run 1 2 r2;
       r4 \<leftarrow> lit sep r3;
       (g3, r5) \<leftarrow> digits_run 2 4 r4;
       if at_end r5 then Some (g1, g2, g3) else None
     }"

text \<open>\<^verbatim>\<open>_date_yyyymmdd_dash\<close>: \<^verbatim>\<open>^\s*(\d{4})-(\d{1,2})-(\d{1,2})\s*$\<close>.\<close>

definition match_date_yyyymmdd_dash :: "string \<Rightarrow> (string \<times> string \<times> string) option" where
  "match_date_yyyymmdd_dash s =
     do {
       (g1, r1) \<leftarrow> digits_run 4 4 (dropWhile is_space s);
       r2 \<leftarrow> lit (CHR ''-'') r1;
       (g2, r3) \<leftarrow> digits_run 1 2 r2;
       r4 \<leftarrow> lit (CHR ''-'') r3;
       (g3, r5) \<leftarrow> digits_run 1 2 r4;
       if at_end r5 then Some (g1, g2, g3) else None
     }"

text \<open>
  The optional group \<^verbatim>\<open>(?::(\d{2}))?\<close>. What follows it in both time patterns cannot start
  with a colon, so a colon that is not followed by exactly two digits makes the whole match
  fail (outer \<open>None\<close>); without a colon the group is skipped (inner \<open>None\<close>).
\<close>

definition opt_seconds :: "string \<Rightarrow> (string option \<times> string) option" where
  "opt_seconds s =
     (case lit (CHR '':'') s of
        None \<Rightarrow> Some (None, s)
      | Some r \<Rightarrow> do { (g, r') \<leftarrow> digits_run 2 2 r; Some (Some g, r') })"

text \<open>\<^verbatim>\<open>\.?\<close>: an optional period.\<close>

definition opt_dot :: "string \<Rightarrow> string \<times> string" where
  "opt_dot s = (case s of [] \<Rightarrow> ([], []) | x # r \<Rightarrow> if x = CHR ''.'' then ([x], r) else ([], s))"

text \<open>The group \<^verbatim>\<open>([ap]\.?m\.?)\<close>, under \<^verbatim>\<open>re.I\<close>.\<close>

definition ampm_marker :: "string \<Rightarrow> (string \<times> string) option" where
  "ampm_marker s =
     (case s of [] \<Rightarrow> None | c # r \<Rightarrow>
      if lower_char c = CHR ''a'' \<or> lower_char c = CHR ''p'' then
        (case opt_dot r of (d1, r1) \<Rightarrow>
         (case r1 of [] \<Rightarrow> None | m # r2 \<Rightarrow>
          if lower_char m = CHR ''m'' then
            (case opt_dot r2 of (d2, r3) \<Rightarrow> Some (c # d1 @ m # d2, r3))
          else None))
      else None)"

text \<open>\<^verbatim>\<open>_time_hhmm_ampm\<close>: \<^verbatim>\<open>^\s*(\d{1,2}):(\d{2})(?::(\d{2}))?\s*([ap]\.?m\.?)\s*$\<close>.\<close>

definition match_time_hhmm_ampm ::
  "string \<Rightarrow> (string \<times> string \<times> string option \<times> string) option" where
  "match_time_hhmm_ampm s =
     do {
       (g1, r1) \<leftarrow> digits_run 1 2 (dropWhile is_space s);
       r2 \<leftarrow> lit (CHR '':'') r1;
       (g2, r3) \<leftarrow> digits_run 2 2 r2;
       (g3, r4) \<leftarrow> opt_seconds r3;
       (g4, r5) \<leftarrow> ampm_marker (dropWhile is_space r4);
       if at_end r5 then Some (g1, g2, g3, g4) else None
     }"

text \<open>\<^verbatim>\<open>_time_hhmm_24\<close>: \<^verbatim>\<open>^\s*(\d{1,2}):(\d{2})(?::(\d{2}))?\s*$\<close>.\<close>

definition match_time_hhmm_24 :: "string \<Rightarrow> (string \<times> string \<times> string option) option" where
  "match_time_hhmm_24 s =
     do {
       (g1, r1) \<leftarrow> digits_run 1 2 (dropWhile is_space s);
       r2 \<leftarrow> lit (CHR '':'') r1;
       (g2, r3) \<leftarrow> digits_run 2 2 r2;
       (g3, r4) \<leftarrow> opt_seconds r3;
       if at_end r4 then Some (g1, g2, g3) else None
     }"

section \<open>Date and time normalisation\<close>

text \<open>\<^verbatim>\<open>not s or s.lower() in ("nan", "nat", "none")\<close>.\<close>

definition is_missing_str :: "string \<Rightarrow> bool" where
  "is_missing_str s \<longleftrightarrow> s = [] \<or> lower s = ''nan'' \<or> lower s = ''nat'' \<or> lower s = ''none''"

definition norm_year :: "nat \<Rightarrow> nat" where
  "norm_year y = (if y < 100 then (if y < 70 then 2000 + y else 1900 + y) else y)"

text \<open>
  \<^verbatim>\<open>_normalize_date_str\<close> (an Isabelle name cannot start with an underscore). The two
  \<^verbatim>\<open>try\<close> blocks of the source only format three integers, which cannot raise, so their
  \<^verbatim>\<open>except\<close> branches are never taken and have no branch here. The empty string is the
  absent result.
\<close>

definition ymd_str :: "nat \<Rightarrow> nat \<Rightarrow> nat \<Rightarrow> string" where
  "ymd_str y mth d = fmt_d 4 y @ ''-'' @ fmt_d 2 mth @ ''-'' @ fmt_d 2 d"

definition normalize_date_str :: "string \<Rightarrow> string" where
  "normalize_date_str s0 =
     (if is_missing_str s0 then []
      else let s = strip s0 in
        (case (case match_date_ddmmyyyy (CHR ''/'') s of
                 Some m \<Rightarrow> Some m
               | None \<Rightarrow> match_date_ddmmyyyy (CHR ''-'') s) of
           Some (g1, g2, g3) \<Rightarrow>
             ymd_str (norm_year (int_of_digits g3)) (int_of_digits g2) (int_of_digits g1)
         | None \<Rightarrow>
             (case match_date_yyyymmdd_dash s of
                Some (g1, g2, g3) \<Rightarrow>
                  ymd_str (int_of_digits g1) (int_of_digits g2) (int_of_digits g3)
              | None \<Rightarrow> [])))"

text \<open>\<^verbatim>\<open>_normalize_time_str\<close>.\<close>

definition hms_str :: "nat \<Rightarrow> nat \<Rightarrow> nat \<Rightarrow> string" where
  "hms_str hh mm ss = fmt_d 2 hh @ '':'' @ fmt_d 2 mm @ '':'' @ fmt_d 2 ss"

definition in_time_range :: "nat \<Rightarrow> nat \<Rightarrow> nat \<Rightarrow> bool" where
  "in_time_range hh mm ss \<longleftrightarrow> hh \<le> 23 \<and> mm \<le> 59 \<and> ss \<le> 59"

definition seconds_group :: "string option \<Rightarrow> nat" where
  "seconds_group g = (case g of Some ds \<Rightarrow> int_of_digits ds | None \<Rightarrow> 0)"

definition adjust_hour :: "string \<Rightarrow> nat \<Rightarrow> nat" where
  "adjust_hour ampm hh0 =
     (let hh1 = (if str_contains ''pm'' ampm \<and> hh0 < 12 then hh0 + 12 else hh0)
      in if str_contains ''am'' ampm \<and> hh1 = 12 then 0 else hh1)"

definition normalize_time_str :: "string \<Rightarrow> string" where
  "normalize_time_str s =
     (if is_missing_str s then []
      else let s0 = remove_dots (lower (strip s)) in
        (case match_time_hhmm_ampm s0 of
           Some (g1, g2, g3, g4) \<Rightarrow>
             (let hh = adjust_hour (lower g4) (int_of_digits g1);
                  mm = int_of_digits g2;
                  ss = seconds_group g3
              in if \<not> in_time_range hh mm ss then [] else hms_str hh mm ss)
         | None \<Rightarrow>
             (case match_time_hhmm_24 s0 of
                Some (g1, g2, g3) \<Rightarrow>
                  (let hh = int_of_digits g1; mm = int_of_digits g2; ss = seconds_group g3
                   in if \<not> in_time_range hh mm ss then [] else hms_str hh mm ss)
              | None \<Rightarrow> [])))"

section \<open>Instants\<close>

text \<open>
  A canonical instant is a \<^verbatim>\<open>datetime64\<close> value of pandas, modelled as the number of seconds
  since 1970-01-01 00:00:00 (the strings parsed here carry whole seconds and no time zone);
  \<open>None\<close> is \<^verbatim>\<open>NaT\<close>.

  \<^verbatim>\<open>pd.to_datetime(full, format="%Y-%m-%d %H:%M:%S", errors="coerce")\<close> is the library's
  strict parse. It is modelled on zero-padded fields, which is what the combiner below builds:
  four digits, two, two, a space, and three groups of two digits; the fields must name a day of
  the proleptic Gregorian calendar and a time of day. Anything else, the empty string included,
  is coerced to \<^verbatim>\<open>NaT\<close>. The bounds of the 64-bit nanosecond representation of
  older pandas versions (years 1677 to 2262) are not modelled.
\<close>

definition is_leap :: "nat \<Rightarrow> bool" where
  "is_leap y \<longleftrightarrow> y mod 4 = 0 \<and> (y mod 100 \<noteq> 0 \<or> y mod 400 = 0)"

definition days_in_month :: "nat \<Rightarrow> nat \<Rightarrow> nat" where
  "days_in_month y m =
     (if m = 2 then (if is_leap y then 29 else 28)
      else if m = 4 \<or> m = 6 \<or> m = 9 \<or> m = 11 then 30 else 31)"

definition valid_civil :: "nat \<Rightarrow> nat \<Rightarrow> nat \<Rightarrow> bool" where
  "valid_civil y m d \<longleftrightarrow> 1 \<le> y \<and> 1 \<le> m \<and> m \<le> 12 \<and> 1 \<le> d \<and> d \<le> days_in_month y m"

definition days_from_civil :: "nat \<Rightarrow> nat \<Rightarrow> nat \<Rightarrow> int" where
  "days_from_civil y m d =
     (let y' = (if m \<le> 2 then int y - 1 else int y);
          era = y' div 400;
          yoe = y' - era * 400;
          mp = (if m > 2 then int m - 3 else int m + 9);
          doy = (153 * mp + 2) div 5 + int d - 1;
          doe = yoe * 365 + yoe div 4 - yoe div 100 + doy
      in era * 146097 + doe - 719468)"

definition epoch_seconds :: "nat \<Rightarrow> nat \<Rightarrow> nat \<Rightarrow> nat \<Rightarrow> nat \<Rightarrow> nat \<Rightarrow> int" where
  "epoch_seconds y m d hh mm ss =
     days_from_civil y m d * 86400 + int hh * 3600 + int mm * 60 + int ss"

definition match_canonical ::
  "string \<Rightarrow> (string \<times> string \<times> string \<times> string \<times> string \<times> string) option" where
  "match_canonical s =
     do {
       (gy, r1) \<leftarrow> digits_run 4 4 s;
       r2 \<leftarrow> lit (CHR ''-'') r1;
       (gm, r3) \<leftarrow> digits_run 2 2 r2;
       r4 \<leftarrow> lit (CHR ''-'') r3;
       (gd, r5) \<leftarrow> digits_run 2 2 r4;
       r6 \<leftarrow> lit (CHR '' '') r5;
       (gH, r7) \<leftarrow> digits_run 2 2 r6;
       r8 \<leftarrow> lit (CHR '':'') r7;
       (gM, r9) \<leftarrow> digits_run 2 2 r8;
       r10 \<leftarrow> lit (CHR '':'') r9;
       (gS, r11) \<leftarrow> digits_run 2 2 r10;
       if r11 = [] then Some (gy, gm, gd, gH, gM, gS) else None
     }"

definition to_datetime :: "string \<Rightarrow> int option" where
  "to_datetime s =
     (case match_canonical s of
        None \<Rightarrow> None
      | Some (gy, gm, gd, gH, gM, gS) \<Rightarrow>
          (let y = int_of_digits gy; m = int_of_digits gm; d = int_of_digits gd;
               hh = int_of_digits gH; mm = int_of_digits gM; ss = int_of_digits gS
           in if valid_civil y m d \<and> in_time_range hh mm ss
              then Some (epoch_seconds y m d hh mm ss) else None))"

section \<open>Cells, series and the table\<close>

text \<open>
  A cell of the table is missing (\<^verbatim>\<open>NaN\<close>, \<^verbatim>\<open>NaT\<close>, \<^verbatim>\<open>pd.NA\<close>), a string, a number or an
  instant. Numbers are reals: the rounding of 64-bit floats is not modelled, and neither is
  the difference between integer and float columns (a flag column holds 0 or 1).
  A series is the list of its cells in row order; all series of one table share its index.
\<close>

datatype cell = NaN | Str string | Num real | TS int

text \<open>
  Two functions of the Python runtime and of pandas are parameters of the model: how a
  number or an instant prints under \<^verbatim>\<open>str\<close>, and which strings \<^verbatim>\<open>pd.to_numeric\<close> reads
  as a number.
\<close>

record pylib =
  num_str :: "real \<Rightarrow> string"
  ts_str :: "int \<Rightarrow> string"
  str_num :: "string \<Rightarrow> real option"

record dataframe =
  nrows :: nat
  columns :: "string \<Rightarrow> cell list option"

definition well_formed :: "dataframe \<Rightarrow> bool" where
  "well_formed df \<longleftrightarrow> (\<forall>c v. columns df c = Some v \<longrightarrow> length v = nrows df)"

definition has_col :: "dataframe \<Rightarrow> string \<Rightarrow> bool" where
  "has_col df c \<longleftrightarrow> columns df c \<noteq> None"

text \<open>\<^verbatim>\<open>df[col] = series\<close> and \<^verbatim>\<open>df[col] = scalar\<close>.\<close>

definition df_set :: "string \<Rightarrow> cell list \<Rightarrow> dataframe \<Rightarrow> dataframe" where
  "df_set c v df = df\<lparr>columns := (columns df)(c \<mapsto> v)\<rparr>"

definition df_set_scalar :: "string \<Rightarrow> cell \<Rightarrow> dataframe \<Rightarrow> dataframe" where
  "df_set_scalar c x df = df_set c (replicate (nrows df) x) df"

text \<open>\<^verbatim>\<open>_safe_get\<close>: an absent column reads as a column of \<^verbatim>\<open>NaN\<close>.\<close>

definition safe_get :: "dataframe \<Rightarrow> string \<Rightarrow> cell list" where
  "safe_get df col =
     (case columns df col of Some v \<Rightarrow> v | None \<Rightarrow> replicate (nrows df) NaN)"

text \<open>Element-wise operations of numpy and pandas.\<close>

definition np_where :: "bool list \<Rightarrow> 'a list \<Rightarrow> 'a list \<Rightarrow> 'a list" where
  "np_where c xs ys = map (\<lambda>(b, x, y). if b then x else y) (zip c (zip xs ys))"

definition vand :: "bool list \<Rightarrow> bool list \<Rightarrow> bool list" where
  "vand xs ys = map2 (\<and>) xs ys"

definition vor :: "bool list \<Rightarrow> bool list \<Rightarrow> bool list" where
  "vor xs ys = map2 (\<or>) xs ys"

definition isna :: "'a option list \<Rightarrow> bool list" where
  "isna xs = map (\<lambda>x. x = None) xs"

definition notna :: "'a option list \<Rightarrow> bool list" where
  "notna xs = map (\<lambda>x. x \<noteq> None) xs"

text \<open>Comparisons of instants: a comparison with \<^verbatim>\<open>NaT\<close> is false.\<close>

definition cmp_dt :: "(int \<Rightarrow> int \<Rightarrow> bool) \<Rightarrow> int option \<Rightarrow> int option \<Rightarrow> bool" where
  "cmp_dt r a b = (case a of None \<Rightarrow> False | Some x \<Rightarrow> (case b of None \<Rightarrow> False | Some y \<Rightarrow> r x y))"

definition gt_dt :: "int option list \<Rightarrow> int option list \<Rightarrow> bool list" where
  "gt_dt xs ys = map2 (cmp_dt (\<lambda>x y. x > y)) xs ys"

definition ge_dt :: "int option list \<Rightarrow> int option list \<Rightarrow> bool list" where
  "ge_dt xs ys = map2 (cmp_dt (\<lambda>x y. x \<ge> y)) xs ys"

definition le_dt :: "int option list \<Rightarrow> int option list \<Rightarrow> bool list" where
  "le_dt xs ys = map2 (cmp_dt (\<lambda>x y. x \<le> y)) xs ys"

definition eq_dt :: "int option list \<Rightarrow> int option list \<Rightarrow> bool list" where
  "eq_dt xs ys = map2 (cmp_dt (\<lambda>x y. x = y)) xs ys"

text \<open>\<^verbatim>\<open>(a - b).dt.total_seconds() / 3600.0\<close>.\<close>

definition hours_diff :: "int option \<Rightarrow> int option \<Rightarrow> real option" where
  "hours_diff a b =
     (case a of None \<Rightarrow> None
      | Some x \<Rightarrow> (case b of None \<Rightarrow> None | Some y \<Rightarrow> Some (real_of_int (x - y) / 3600)))"

definition hours_between :: "int option list \<Rightarrow> int option list \<Rightarrow> real option list" where
  "hours_between xs ys = map2 hours_diff xs ys"

text \<open>Storing a typed series in the table.\<close>

definition cell_of_dt :: "int option \<Rightarrow> cell" where
  "cell_of_dt x = (case x of None \<Rightarrow> NaN | Some t \<Rightarrow> TS t)"

definition cell_of_float :: "real option \<Rightarrow> cell" where
  "cell_of_float x = (case x of None \<Rightarrow> NaN | Some v \<Rightarrow> Num v)"

definition cell_of_flag :: "bool \<Rightarrow> cell" where
  "cell_of_flag b = Num (if b then 1 else 0)"

text \<open>\<^verbatim>\<open>series.astype(str)\<close>, cell by cell.\<close>

definition astype_str :: "pylib \<Rightarrow> cell \<Rightarrow> string" where
  "astype_str L c =
     (case c of NaN \<Rightarrow> ''nan'' | Str s \<Rightarrow> s | Num v \<Rightarrow> num_str L v | TS t \<Rightarrow> ts_str L t)"

section \<open>The timestamp combiner\<close>

definition normalize_series_date :: "pylib \<Rightarrow> cell list \<Rightarrow> string list" where
  "normalize_series_date L s = map normalize_date_str (map (astype_str L) s)"

definition normalize_series_time :: "pylib \<Rightarrow> cell list \<Rightarrow> string list" where
  "normalize_series_time L s = map normalize_time_str (map (astype_str L) s)"

definition combine_datetime :: "pylib \<Rightarrow> cell list \<Rightarrow> cell list \<Rightarrow> int option list" where
  "combine_datetime L date_series time_series =
     (let d = normalize_series_date L date_series;
          t = normalize_series_time L time_series;
          has_date = map (\<lambda>x. x \<noteq> []) d;
          t' = np_where (vand (map (\<lambda>x. x = []) t) has_date)
                 (replicate (length t) ''00:00:00'') t;
          full = np_where has_date (map2 (\<lambda>a b. a @ '' '' @ b) d t')
                   (replicate (length d) [])
      in map to_datetime full)"

section \<open>The derived columns\<close>

text \<open>
  \<^verbatim>\<open>add_derived_columns\<close> assigns its columns one after the other to the table it was given.
  Each block of the function is a definition of its own here, from table to table, in the
  order of the source. \<^verbatim>\<open>df[c]\<close> on a column of instants or of floats reads the stored cells
  back; every such read is of a column that an earlier statement of the function has stored,
  so the \<^verbatim>\<open>KeyError\<close> of an absent column has no branch.
\<close>

definition dt_of_cell :: "cell \<Rightarrow> int option" where
  "dt_of_cell c = (case c of TS t \<Rightarrow> Some t | _ \<Rightarrow> None)"

definition get_dt :: "dataframe \<Rightarrow> string \<Rightarrow> int option list" where
  "get_dt df c = map dt_of_cell (safe_get df c)"

definition set_dt :: "string \<Rightarrow> int option list \<Rightarrow> dataframe \<Rightarrow> dataframe" where
  "set_dt c v df = df_set c (map cell_of_dt v) df"

definition set_float :: "string \<Rightarrow> real option list \<Rightarrow> dataframe \<Rightarrow> dataframe" where
  "set_float c v df = df_set c (map cell_of_float v) df"

text \<open>\<^verbatim>\<open>mask.astype(int)\<close> stored as a column.\<close>

definition set_flag :: "string \<Rightarrow> bool list \<Rightarrow> dataframe \<Rightarrow> dataframe" where
  "set_flag c v df = df_set c (map cell_of_flag v) df"

text \<open>\<^verbatim>\<open>s.loc[mask] = other.loc[mask]\<close> and \<^verbatim>\<open>s.loc[mask] = value\<close>.\<close>

definition loc_assign :: "bool list \<Rightarrow> 'a list \<Rightarrow> 'a list \<Rightarrow> 'a list" where
  "loc_assign msk other s = map (\<lambda>(m, o', x). if m then o' else x) (zip msk (zip other s))"

definition loc_fill :: "bool list \<Rightarrow> 'a \<Rightarrow> 'a list \<Rightarrow> 'a list" where
  "loc_fill msk v s = map2 (\<lambda>m x. if m then v else x) msk s"

subsection \<open>Columns that must exist, and the location\<close>

definition ensure_col :: "dataframe \<Rightarrow> string \<Rightarrow> dataframe" where
  "ensure_col df c = (if \<not> has_col df c then df_set_scalar c NaN df else df)"

definition future_cols :: "string list" where
  "future_cols = [''Root Cause Analysis'', ''Correction'', ''Corrective Action'',
     ''Labour Cost'', ''Material Cost'', ''Machinery Cost'', ''Other Cost'', ''Total Cost'']"

definition ensure_cols :: "dataframe \<Rightarrow> dataframe" where
  "ensure_cols df = foldl ensure_col df future_cols"

text \<open>\<^verbatim>\<open>s.rsplit("/", 1)[-1]\<close>: what follows the last slash.\<close>

definition after_last_slash :: "string \<Rightarrow> string" where
  "after_last_slash s = rev (takeWhile (\<lambda>c. c \<noteq> CHR ''/'') (rev s))"

definition extract_location :: "pylib \<Rightarrow> cell \<Rightarrow> cell" where
  "extract_location L val =
     (if val = NaN then val
      else let s = astype_str L val in
        Str (if CHR ''/'' \<in> set s then strip (after_last_slash s) else strip s))"

definition extract_location_variable :: "pylib \<Rightarrow> cell list \<Rightarrow> cell list" where
  "extract_location_variable L raw = map (extract_location L) raw"

definition location_fixed :: "pylib \<Rightarrow> dataframe \<Rightarrow> dataframe" where
  "location_fixed L df =
     (if has_col df ''Location Variable''
      then df_set ''Location Variable (Fixed)''
             (extract_location_variable L (safe_get df ''Location Variable'')) df
      else df_set_scalar ''Location Variable (Fixed)'' NaN df)"

subsection \<open>The five instants\<close>

definition datetimes :: "pylib \<Rightarrow> dataframe \<Rightarrow> dataframe" where
  "datetimes L df0 =
     (let df = set_dt ''_RaisedOnDT''
                 (combine_datetime L (safe_get df0 ''Raised On Date'')
                    (safe_get df0 ''Raised On Time'')) df0;
          df = set_dt ''_DeadlineDT''
                 (combine_datetime L (safe_get df ''Deadline Date'')
                    (safe_get df ''Deadline Time'')) df;
          df = set_dt ''_RespondedOnDT''
                 (combine_datetime L (safe_get df ''Responded On Date'')
                    (safe_get df ''Responded On Time'')) df;
          df = set_dt ''_RejectedOnDT''
                 (combine_datetime L (safe_get df ''Rejected On Date'')
                    (safe_get df ''Rejected On Time'')) df;
          df = set_dt ''_ClosedOnDT''
                 (combine_datetime L (safe_get df ''Closed On Date'')
                    (safe_get df ''Closed On Time'')) df
      in df)"

subsection \<open>Effective resolution, timings and flags\<close>

definition responded_after_raised ::
  "int option list \<Rightarrow> int option list \<Rightarrow> int option list \<Rightarrow> bool list" where
  "responded_after_raised closed_on responded_on raised_on =
     vand (vand (vand (isna closed_on) (notna responded_on)) (notna raised_on))
       (gt_dt responded_on raised_on)"

definition effective_resolution :: "dataframe \<Rightarrow> dataframe" where
  "effective_resolution df =
     (let eff = get_dt df ''_ClosedOnDT'';
          mask_eff = responded_after_raised eff (get_dt df ''_RespondedOnDT'')
                       (get_dt df ''_RaisedOnDT'');
          eff = loc_assign mask_eff (get_dt df ''_RespondedOnDT'') eff
      in set_dt ''_EffectiveResolutionDT'' eff df)"

definition timings :: "dataframe \<Rightarrow> dataframe" where
  "timings df0 =
     (let df = set_float ''Computed Closure Time (Hrs)''
                 (hours_between (get_dt df0 ''_EffectiveResolutionDT'')
                    (get_dt df0 ''_RaisedOnDT'')) df0;
          df = set_float ''Responding Time (Hrs)''
                 (hours_between (get_dt df ''_RespondedOnDT'') (get_dt df ''_RaisedOnDT'')) df
      in df)"

definition responded_not_closed :: "dataframe \<Rightarrow> dataframe" where
  "responded_not_closed df =
     set_flag ''_RespondedNotClosed_Flag''
       (responded_after_raised (get_dt df ''_ClosedOnDT'') (get_dt df ''_RespondedOnDT'')
          (get_dt df ''_RaisedOnDT'')) df"

definition close_after_response :: "dataframe \<Rightarrow> dataframe" where
  "close_after_response df =
     (let eff = get_dt df ''_EffectiveResolutionDT'';
          responded = get_dt df ''_RespondedOnDT'';
          mask_car = vand (vand (notna eff) (notna responded)) (ge_dt eff responded)
      in set_float ''Close After Response (Hrs)''
           (np_where mask_car (hours_between eff responded)
              (replicate (length mask_car) None)) df)"

text \<open>
  \<^verbatim>\<open>np.where(mask, bools, np.nan)\<close> is an array of floats: 1.0 for true, 0.0 for false and
  \<^verbatim>\<open>NaN\<close> where the mask is false.
\<close>

definition float_of_bool :: "bool \<Rightarrow> real option" where
  "float_of_bool b = Some (if b then 1 else 0)"

definition sla_met :: "dataframe \<Rightarrow> dataframe" where
  "sla_met df =
     (let deadline = get_dt df ''_DeadlineDT'';
          eff = get_dt df ''_EffectiveResolutionDT'';
          known = vand (notna deadline) (notna eff)
      in set_float ''SLA Met''
           (np_where known (map float_of_bool (le_dt eff deadline))
              (replicate (length known) None)) df)"

subsection \<open>Total cost fallback\<close>

text \<open>\<^verbatim>\<open>pd.to_numeric(..., errors="coerce")\<close> on one cell.\<close>

definition to_numeric :: "pylib \<Rightarrow> cell \<Rightarrow> real option" where
  "to_numeric L c =
     (case c of NaN \<Rightarrow> None | Str s \<Rightarrow> str_num L s | Num v \<Rightarrow> Some v | TS t \<Rightarrow> None)"

text \<open>\<^verbatim>\<open>frame.sum(axis=1, min_count=1)\<close>: the sum of the numbers of a row, missing when the
  row has none. The frame is the list of its columns and \<open>n\<close> its number of rows.\<close>

definition sum_min_count1 :: "real option list \<Rightarrow> real option" where
  "sum_min_count1 xs =
     (case List.map_filter (\<lambda>x. x) xs of [] \<Rightarrow> None | y # ys \<Rightarrow> Some (sum_list (y # ys)))"

definition row_of :: "'a list list \<Rightarrow> nat \<Rightarrow> 'a list" where
  "row_of frame i = map (\<lambda>col. col ! i) frame"

definition sum_axis1 :: "nat \<Rightarrow> real option list list \<Rightarrow> real option list" where
  "sum_axis1 n frame = map (\<lambda>i. sum_min_count1 (row_of frame i)) [0..<n]"

definition fillna :: "real option list \<Rightarrow> real option list \<Rightarrow> real option list" where
  "fillna s other = map2 (\<lambda>x y. case x of Some v \<Rightarrow> Some v | None \<Rightarrow> y) s other"

definition cost_parts :: "string list" where
  "cost_parts = [''Labour Cost'', ''Material Cost'', ''Machinery Cost'', ''Other Cost'']"

definition total_cost_fallback :: "pylib \<Rightarrow> dataframe \<Rightarrow> dataframe" where
  "total_cost_fallback L df =
     (if has_col df ''Total Cost'' then
        (let part_sum = sum_axis1 (nrows df)
               (map (\<lambda>p. map (to_numeric L) (safe_get df p)) (filter (has_col df) cost_parts))
         in set_float ''Total Cost''
              (fillna (map (to_numeric L) (safe_get df ''Total Cost'')) part_sum) df)
      else df)"

subsection \<open>Rejected to closed\<close>

text \<open>\<^verbatim>\<open>_nz\<close>: \<^verbatim>\<open>s.where(s.notna(), "").astype(str).str.strip()\<close>.\<close>

definition nz :: "pylib \<Rightarrow> dataframe \<Rightarrow> string \<Rightarrow> string list" where
  "nz L df series_name =
     map (\<lambda>c. strip (astype_str L (if c \<noteq> NaN then c else Str []))) (safe_get df series_name)"

definition ne_empty :: "string list \<Rightarrow> bool list" where
  "ne_empty xs = map (\<lambda>s. s \<noteq> []) xs"

text \<open>
  \<^verbatim>\<open>str.contains(r"\b(closed|approved|resolved|complete)\b", regex=True)\<close>: a search for one
  of the words between two word boundaries. \<open>prev\<close> tells whether the character before the
  position is a word character.
\<close>

definition closed_words :: "string list" where
  "closed_words = [''closed'', ''approved'', ''resolved'', ''complete'']"

definition word_here :: "string \<Rightarrow> string \<Rightarrow> bool" where
  "word_here w s \<longleftrightarrow>
     take (length w) s = w \<and>
     (case drop (length w) s of [] \<Rightarrow> True | c # _ \<Rightarrow> \<not> is_word_char c)"

fun search_words :: "string list \<Rightarrow> bool \<Rightarrow> string \<Rightarrow> bool" where
  "search_words ws prev [] = False"
| "search_words ws prev (c # cs) =
     ((\<not> prev \<and> list_ex (\<lambda>w. word_here w (c # cs)) ws) \<or> search_words ws (is_word_char c) cs)"

definition closedish :: "string \<Rightarrow> bool" where
  "closedish s = search_words closed_words False s"

definition r2c_flag :: "pylib \<Rightarrow> dataframe \<Rightarrow> dataframe" where
  "r2c_flag L df =
     (let has_reject_evidence =
            vor (vor (vor (vor (notna (get_dt df ''_RejectedOnDT''))
              (ne_empty (nz L df ''Rejected By''))) (ne_empty (nz L df ''Rejected Comment'')))
              (ne_empty (nz L df ''Rejected On Date''))) (ne_empty (nz L df ''Rejected On Time''));
          cur_status = map lower (nz L df ''Current Status'');
          has_close_evidence =
            vor (vor (vor (vor (vor (notna (get_dt df ''_ClosedOnDT'')) (map closedish cur_status))
              (ne_empty (nz L df ''Closed By''))) (ne_empty (nz L df ''Closed Comment'')))
              (ne_empty (nz L df ''Closed On Date''))) (ne_empty (nz L df ''Closed On Time''))
      in set_flag ''_R2C_Flag'' (vand has_reject_evidence has_close_evidence) df)"

text \<open>\<^verbatim>\<open>np.isfinite\<close> and \<^verbatim>\<open>np.maximum(x, 0.0)\<close> on a float that may be \<^verbatim>\<open>NaN\<close>.\<close>

definition isfinite :: "real option \<Rightarrow> bool" where
  "isfinite x \<longleftrightarrow> x \<noteq> None"

definition maximum0 :: "real option \<Rightarrow> real option" where
  "maximum0 x = map_option (\<lambda>v. max v 0) x"

definition r2c_strict :: "dataframe \<Rightarrow> dataframe" where
  "r2c_strict df0 =
     (let both_dt = vand (notna (get_dt df0 ''_RejectedOnDT'')) (notna (get_dt df0 ''_ClosedOnDT''));
          df = set_flag ''_R2C_Strict_Flag'' both_dt df0;
          dur_hours = np_where both_dt
                        (hours_between (get_dt df ''_ClosedOnDT'') (get_dt df ''_RejectedOnDT''))
                        (replicate (length both_dt) None)
      in set_float ''R2C Hours (>=0)''
           (np_where (map isfinite dur_hours) (map maximum0 dur_hours)
              (replicate (length dur_hours) None)) df)"

subsection \<open>Last status change\<close>

text \<open>\<^verbatim>\<open>frame.max(axis=1, skipna=True)\<close> on a frame of instants.\<close>

definition max_skipna :: "int option list \<Rightarrow> int option" where
  "max_skipna xs =
     (case List.map_filter (\<lambda>x. x) xs of [] \<Rightarrow> None | y # ys \<Rightarrow> Some (foldl max y ys))"

definition max_axis1 :: "nat \<Rightarrow> int option list list \<Rightarrow> int option list" where
  "max_axis1 n frame = map (\<lambda>i. max_skipna (row_of frame i)) [0..<n]"

definition last_status_change :: "dataframe \<Rightarrow> dataframe" where
  "last_status_change df =
     (let last_dt = [get_dt df ''_ClosedOnDT'', get_dt df ''_RejectedOnDT'',
                     get_dt df ''_RespondedOnDT'', get_dt df ''_EffectiveResolutionDT'']
      in set_dt ''_LastStatusChangeDT'' (max_axis1 (nrows df) last_dt) df)"

text \<open>The first labelling: an object column of \<^verbatim>\<open>pd.NA\<close>, overwritten mask by mask.\<close>

definition last_status_event_object :: "dataframe \<Rightarrow> dataframe" where
  "last_status_event_object df =
     (let latest = get_dt df ''_LastStatusChangeDT'';
          evt = replicate (nrows df) NaN;
          evt = loc_fill (vand (notna latest) (eq_dt (get_dt df ''_ClosedOnDT'') latest))
                  (Str ''Closed'') evt;
          evt = loc_fill (vand (notna latest) (eq_dt (get_dt df ''_RejectedOnDT'') latest))
                  (Str ''Rejected'') evt;
          evt = loc_fill (vand (notna latest) (eq_dt (get_dt df ''_RespondedOnDT'') latest))
                  (Str ''Responded'') evt;
          evt = loc_fill (vand (notna latest) (eq_dt (get_dt df ''_EffectiveResolutionDT'') latest))
                  (Str ''Effective'') evt
      in df_set ''_LastStatusEvent'' evt df)"

text \<open>
  The second labelling, which replaces the column. The nested \<^verbatim>\<open>np.where\<close> mixes strings
  with \<^verbatim>\<open>np.nan\<close>, so numpy builds an array of strings in which the missing label is the
  string \<^verbatim>\<open>nan\<close>.
\<close>

definition last_status_event_priority :: "dataframe \<Rightarrow> dataframe" where
  "last_status_event_priority df =
     (let latest = get_dt df ''_LastStatusChangeDT'';
          n = length latest;
          evt = np_where (eq_dt (get_dt df ''_ClosedOnDT'') latest) (replicate n ''Closed'')
               (np_where (eq_dt (get_dt df ''_RejectedOnDT'') latest) (replicate n ''Rejected'')
               (np_where (eq_dt (get_dt df ''_RespondedOnDT'') latest) (replicate n ''Responded'')
               (np_where (eq_dt (get_dt df ''_EffectiveResolutionDT'') latest)
                  (replicate n ''Effective'') (replicate n ''nan''))))
      in df_set ''_LastStatusEvent'' (map Str evt) df)"

subsection \<open>The whole pass\<close>

definition add_derived_columns :: "pylib \<Rightarrow> dataframe \<Rightarrow> dataframe" where
  "add_derived_columns L df0 =
     (let df = ensure_cols df0;
          df = location_fixed L df;
          df = datetimes L df;
          df = effective_resolution df;
          df = timings df;
          df = responded_not_closed df;
          df = close_after_response df;
          df = sla_met df;
          df = total_cost_fallback L df;
          df = r2c_flag L df;
          df = r2c_strict df;
          df = last_status_change df;
          df = last_status_event_object df;
          df = last_status_event_priority df
      in df)"

section \<open>The SLA rate of the metrics header\<close>

text \<open>
  \<^verbatim>\<open>metrics_summary\<close> draws six numbers; the one modelled is \<^verbatim>\<open>sla_rate\<close>:
  \<^verbatim>\<open>dropna\<close> on the column, then the mean times 100 when a value is left. The mean of a
  column that holds something else than numbers raises.
\<close>

datatype py_error = TypeError

definition dropna :: "cell list \<Rightarrow> cell list" where
  "dropna s = filter (\<lambda>c. c \<noteq> NaN) s"

definition num_of_cell :: "cell \<Rightarrow> real option" where
  "num_of_cell c = (case c of Num v \<Rightarrow> Some v | _ \<Rightarrow> None)"

definition mean :: "cell list \<Rightarrow> py_error + real" where
  "mean s =
     (if list_all (\<lambda>c. num_of_cell c \<noteq> None) s
      then Inr (sum_list (map (\<lambda>c. the (num_of_cell c)) s) / real (length s))
      else Inl TypeError)"

definition sla_rate :: "dataframe \<Rightarrow> py_error + real option" where
  "sla_rate df =
     (let sla_known = (if has_col df ''SLA Met'' then dropna (safe_get df ''SLA Met'') else [])
      in if length sla_known \<noteq> 0
         then (case mean sla_known of Inl e \<Rightarrow> Inl e | Inr m \<Rightarrow> Inr (Some (m * 100)))
         else Inr None)"

section \<open>The last status event, as the specification words it\<close>

text \<open>
  These two functions are not taken from the source: they say in the words of the
  specification what the latest instant of a row is (the maximum of the candidates that are
  present) and which label goes with it (the first candidate, in the order Closed, Rejected,
  Responded, Effective, that equals that maximum). The source's column is compared with them.
\<close>

definition spec_latest :: "int option list \<Rightarrow> int option" where
  "spec_latest xs =
     (case List.map_filter (\<lambda>x. x) xs of [] \<Rightarrow> None | t # ts \<Rightarrow> Some (Max (set (t # ts))))"

definition spec_last_status_event ::
  "int option \<Rightarrow> int option \<Rightarrow> int option \<Rightarrow> int option \<Rightarrow> string option" where
  "spec_last_status_event c j r e =
     (case spec_latest [c, j, r, e] of
        None \<Rightarrow> None
      | Some m \<Rightarrow>
          map_option fst
            (find (\<lambda>(l, t). t = Some m)
               [(''Closed'', c), (''Rejected'', j), (''Responded'', r), (''Effective'', e)]))"


section \<open>A small register\<close>

text \<open>
  A register of four records and a stand-in for the two library functions, on which the
  theorems below are run. No cell of the register is a number or an instant in a text
  column, so the printing functions are never called on it, and the reader of numeric
  strings rejects all of them.
\<close>

definition example_lib :: pylib where
  "example_lib = \<lparr>num_str = (\<lambda>_. ''0''), ts_str = (\<lambda>_. ''0''), str_num = (\<lambda>_. None)\<rparr>"

definition example_df :: dataframe where
  "example_df = \<lparr>nrows = 4, columns = map_of [
     (''Raised On Date'', [Str ''1/1/2024'', Str ''1/1/2024'', Str ''1/1/2024'', Str ''1/1/2024'']),
     (''Raised On Time'', [Str ''10:00'', NaN, NaN, NaN]),
     (''Deadline Date'', [Str ''2/1/2024'', NaN, Str ''1/1/2024'', Str ''1/1/2024'']),
     (''Responded On Date'',
        [Str ''2/1/2024'', Str ''2/1/2024'', Str ''31/12/2023'', Str ''2/1/2024'']),
     (''Rejected On Date'', [Str ''3/1/2024'', NaN, NaN, NaN]),
     (''Rejected On Time'', [NaN, Str ''10:00'', NaN, NaN]),
     (''Closed On Date'', [Str ''2/1/2024'', NaN, NaN, Str ''2/1/2024'']),
     (''Labour Cost'', [Num 100, Num 1, NaN, Str ''x'']),
     (''Machinery Cost'', [Num 50, Num 1, NaN, Num 5]),
     (''Total Cost'', [NaN, Num 500, NaN, Str ''n/a''])]\<rparr>"


section \<open>Helper facts\<close>

subsection \<open>Element-wise operations, row by row\<close>

lemma length_np_where:
  "length (np_where c xs ys) = min (length c) (min (length xs) (length ys))"
  by (simp add: np_where_def)

lemma nth_np_where:
  "i < length c \<Longrightarrow> i < length xs \<Longrightarrow> i < length ys \<Longrightarrow>
   np_where c xs ys ! i = (if c ! i then xs ! i else ys ! i)"
  by (simp add: np_where_def)

lemma length_loc_assign:
  "length (loc_assign m xs ys) = min (length m) (min (length xs) (length ys))"
  by (simp add: loc_assign_def)

lemma nth_loc_assign:
  "i < length m \<Longrightarrow> i < length xs \<Longrightarrow> i < length ys \<Longrightarrow>
   loc_assign m xs ys ! i = (if m ! i then xs ! i else ys ! i)"
  by (simp add: loc_assign_def)

lemma length_loc_fill: "length (loc_fill m v s) = min (length m) (length s)"
  by (simp add: loc_fill_def)

lemma nth_loc_fill:
  "i < length m \<Longrightarrow> i < length s \<Longrightarrow> loc_fill m v s ! i = (if m ! i then v else s ! i)"
  by (simp add: loc_fill_def)

lemma length_vand: "length (vand xs ys) = min (length xs) (length ys)"
  by (simp add: vand_def)

lemma nth_vand: "i < length xs \<Longrightarrow> i < length ys \<Longrightarrow> vand xs ys ! i = (xs ! i \<and> ys ! i)"
  by (simp add: vand_def)

lemma length_vor: "length (vor xs ys) = min (length xs) (length ys)"
  by (simp add: vor_def)

lemma nth_vor: "i < length xs \<Longrightarrow> i < length ys \<Longrightarrow> vor xs ys ! i = (xs ! i \<or> ys ! i)"
  by (simp add: vor_def)

lemma length_isna: "length (isna xs) = length xs"
  by (simp add: isna_def)

lemma nth_isna: "i < length xs \<Longrightarrow> isna xs ! i = (xs ! i = None)"
  by (simp add: isna_def)

lemma length_notna: "length (notna xs) = length xs"
  by (simp add: notna_def)

lemma nth_notna: "i < length xs \<Longrightarrow> notna xs ! i = (xs ! i \<noteq> None)"
  by (simp add: notna_def)

lemma length_cmp:
  "length (gt_dt xs ys) = min (length xs) (length ys)"
  "length (ge_dt xs ys) = min (length xs) (length ys)"
  "length (le_dt xs ys) = min (length xs) (length ys)"
  "length (eq_dt xs ys) = min (length xs) (length ys)"
  by (simp_all add: gt_dt_def ge_dt_def le_dt_def eq_dt_def)

lemma nth_cmp:
  assumes "i < length xs" "i < length ys"
  shows "gt_dt xs ys ! i = cmp_dt (\<lambda>x y. x > y) (xs ! i) (ys ! i)"
    and "ge_dt xs ys ! i = cmp_dt (\<lambda>x y. x \<ge> y) (xs ! i) (ys ! i)"
    and "le_dt xs ys ! i = cmp_dt (\<lambda>x y. x \<le> y) (xs ! i) (ys ! i)"
    and "eq_dt xs ys ! i = cmp_dt (\<lambda>x y. x = y) (xs ! i) (ys ! i)"
  using assms by (simp_all add: gt_dt_def ge_dt_def le_dt_def eq_dt_def)

lemma length_hours_between:
  "length (hours_between xs ys) = min (length xs) (length ys)"
  by (simp add: hours_between_def)

lemma nth_hours_between:
  "i < length xs \<Longrightarrow> i < length ys \<Longrightarrow> hours_between xs ys ! i = hours_diff (xs ! i) (ys ! i)"
  by (simp add: hours_between_def)

lemmas vec_length0 = length_np_where length_loc_assign length_loc_fill length_vand length_vor
  length_isna length_notna length_cmp length_hours_between

lemma length_responded_after_raised:
  "length (responded_after_raised c r a) = min (length c) (min (length r) (length a))"
  by (simp add: responded_after_raised_def vec_length0)

lemmas vec_length = vec_length0 length_responded_after_raised

lemma nth_responded_after_raised:
  "i < length c \<Longrightarrow> i < length r \<Longrightarrow> i < length a \<Longrightarrow>
   responded_after_raised c r a ! i =
     (c ! i = None \<and> (\<exists>x y. r ! i = Some x \<and> a ! i = Some y \<and> y < x))"
  by (auto simp: responded_after_raised_def nth_vand nth_isna nth_notna nth_cmp cmp_dt_def
      vec_length0 split: option.splits)

subsection \<open>Reading and writing columns\<close>

lemma dt_of_cell_of_dt [simp]: "dt_of_cell (cell_of_dt x) = x"
  by (cases x) (simp_all add: dt_of_cell_def cell_of_dt_def)

lemma dt_of_cell_comp [simp]: "dt_of_cell \<circ> cell_of_dt = (\<lambda>x. x)"
  by (rule ext) simp

lemma map_dt_of_cell_of_dt [simp]: "map dt_of_cell (map cell_of_dt xs) = xs"
  by simp

lemma nrows_df_set [simp]: "nrows (df_set c v df) = nrows df"
  by (simp add: df_set_def)

lemma has_col_df_set [simp]: "has_col (df_set c v df) c' \<longleftrightarrow> c' = c \<or> has_col df c'"
  by (simp add: df_set_def has_col_def)

lemma safe_get_df_set: "safe_get (df_set c v df) c' = (if c' = c then v else safe_get df c')"
  by (simp add: df_set_def safe_get_def split: option.splits)

lemma get_dt_df_set:
  "get_dt (df_set c v df) c' = (if c' = c then map dt_of_cell v else get_dt df c')"
  by (simp add: get_dt_def safe_get_df_set)

lemma set_simps [simp]:
  "nrows (set_dt c x df) = nrows df"
  "nrows (set_float c y df) = nrows df"
  "nrows (set_flag c z df) = nrows df"
  "nrows (df_set_scalar c w df) = nrows df"
  "has_col (set_dt c x df) c' \<longleftrightarrow> c' = c \<or> has_col df c'"
  "has_col (set_float c y df) c' \<longleftrightarrow> c' = c \<or> has_col df c'"
  "has_col (set_flag c z df) c' \<longleftrightarrow> c' = c \<or> has_col df c'"
  "has_col (df_set_scalar c w df) c' \<longleftrightarrow> c' = c \<or> has_col df c'"
  by (simp_all add: set_dt_def set_float_def set_flag_def df_set_scalar_def)

lemma get_dt_set_dt: "get_dt (set_dt c v df) c' = (if c' = c then v else get_dt df c')"
  by (simp add: set_dt_def get_dt_df_set)

lemma get_other [simp]:
  "c' \<noteq> c \<Longrightarrow> get_dt (set_dt c x df) c' = get_dt df c'"
  "c' \<noteq> c \<Longrightarrow> get_dt (set_float c y df) c' = get_dt df c'"
  "c' \<noteq> c \<Longrightarrow> get_dt (set_flag c z df) c' = get_dt df c'"
  "c' \<noteq> c \<Longrightarrow> get_dt (df_set c v df) c' = get_dt df c'"
  "c' \<noteq> c \<Longrightarrow> get_dt (df_set_scalar c w df) c' = get_dt df c'"
  "c' \<noteq> c \<Longrightarrow> safe_get (set_dt c x df) c' = safe_get df c'"
  "c' \<noteq> c \<Longrightarrow> safe_get (set_float c y df) c' = safe_get df c'"
  "c' \<noteq> c \<Longrightarrow> safe_get (set_flag c z df) c' = safe_get df c'"
  "c' \<noteq> c \<Longrightarrow> safe_get (df_set c v df) c' = safe_get df c'"
  "c' \<noteq> c \<Longrightarrow> safe_get (df_set_scalar c w df) c' = safe_get df c'"
  by (simp_all add: set_dt_def set_float_def set_flag_def df_set_scalar_def get_dt_df_set
      safe_get_df_set)

lemma get_same [simp]:
  "get_dt (set_dt c x df) c = x"
  "safe_get (set_dt c x df) c = map cell_of_dt x"
  "safe_get (set_float c y df) c = map cell_of_float y"
  "safe_get (set_flag c z df) c = map cell_of_flag z"
  "safe_get (df_set c v df) c = v"
  "safe_get (df_set_scalar c w df) c = replicate (nrows df) w"
  by (simp_all add: set_dt_def set_float_def set_flag_def df_set_scalar_def get_dt_df_set
      safe_get_df_set)

text \<open>A column that is made to exist reads as it did before.\<close>

lemma safe_get_ensure_col [simp]: "safe_get (ensure_col df c) c' = safe_get df c'"
  by (auto simp: ensure_col_def df_set_scalar_def safe_get_df_set has_col_def)
    (simp add: safe_get_def)

lemma nrows_ensure_col [simp]: "nrows (ensure_col df c) = nrows df"
  by (simp add: ensure_col_def)

lemma has_col_ensure_col [simp]: "has_col (ensure_col df c) c' \<longleftrightarrow> c' = c \<or> has_col df c'"
  by (auto simp: ensure_col_def)

lemma foldl_ensure_col:
  "safe_get (foldl ensure_col df cs) c' = safe_get df c' \<and>
   nrows (foldl ensure_col df cs) = nrows df \<and>
   (has_col (foldl ensure_col df cs) c' \<longleftrightarrow> c' \<in> set cs \<or> has_col df c')"
  by (induction cs arbitrary: df) auto

lemma ensure_cols_simps [simp]:
  "safe_get (ensure_cols df) c' = safe_get df c'"
  "nrows (ensure_cols df) = nrows df"
  "has_col (ensure_cols df) c' \<longleftrightarrow> c' \<in> set future_cols \<or> has_col df c'"
  by (simp_all add: ensure_cols_def foldl_ensure_col)

lemma get_dt_ensure_cols [simp]: "get_dt (ensure_cols df) c = get_dt df c"
  by (simp add: get_dt_def)

subsection \<open>What each block reads and writes\<close>

lemma location_fixed_frame [simp]:
  "nrows (location_fixed L df) = nrows df"
  "c \<noteq> ''Location Variable (Fixed)'' \<Longrightarrow> safe_get (location_fixed L df) c = safe_get df c"
  "c \<noteq> ''Location Variable (Fixed)'' \<Longrightarrow> get_dt (location_fixed L df) c = get_dt df c"
  "has_col (location_fixed L df) c \<longleftrightarrow> c = ''Location Variable (Fixed)'' \<or> has_col df c"
  by (simp_all add: location_fixed_def)

lemma datetimes_frame [simp]:
  "nrows (datetimes L df) = nrows df"
  "c \<noteq> ''_RaisedOnDT'' \<Longrightarrow> c \<noteq> ''_DeadlineDT'' \<Longrightarrow> c \<noteq> ''_RespondedOnDT'' \<Longrightarrow>
   c \<noteq> ''_RejectedOnDT'' \<Longrightarrow> c \<noteq> ''_ClosedOnDT'' \<Longrightarrow>
   safe_get (datetimes L df) c = safe_get df c"
  "c \<noteq> ''_RaisedOnDT'' \<Longrightarrow> c \<noteq> ''_DeadlineDT'' \<Longrightarrow> c \<noteq> ''_RespondedOnDT'' \<Longrightarrow>
   c \<noteq> ''_RejectedOnDT'' \<Longrightarrow> c \<noteq> ''_ClosedOnDT'' \<Longrightarrow>
   get_dt (datetimes L df) c = get_dt df c"
  "has_col (datetimes L df) c \<longleftrightarrow>
     c = ''_ClosedOnDT'' \<or> c = ''_RejectedOnDT'' \<or> c = ''_RespondedOnDT'' \<or>
     c = ''_DeadlineDT'' \<or> c = ''_RaisedOnDT'' \<or> has_col df c"
  by (simp_all add: datetimes_def Let_def)

lemma datetimes_cols [simp]:
  "get_dt (datetimes L df) ''_RaisedOnDT'' =
     combine_datetime L (safe_get df ''Raised On Date'') (safe_get df ''Raised On Time'')"
  "get_dt (datetimes L df) ''_DeadlineDT'' =
     combine_datetime L (safe_get df ''Deadline Date'') (safe_get df ''Deadline Time'')"
  "get_dt (datetimes L df) ''_RespondedOnDT'' =
     combine_datetime L (safe_get df ''Responded On Date'') (safe_get df ''Responded On Time'')"
  "get_dt (datetimes L df) ''_RejectedOnDT'' =
     combine_datetime L (safe_get df ''Rejected On Date'') (safe_get df ''Rejected On Time'')"
  "get_dt (datetimes L df) ''_ClosedOnDT'' =
     combine_datetime L (safe_get df ''Closed On Date'') (safe_get df ''Closed On Time'')"
  by (simp_all add: datetimes_def Let_def)

lemma effective_resolution_frame [simp]:
  "nrows (effective_resolution df) = nrows df"
  "c \<noteq> ''_EffectiveResolutionDT'' \<Longrightarrow> safe_get (effective_resolution df) c = safe_get df c"
  "c \<noteq> ''_EffectiveResolutionDT'' \<Longrightarrow> get_dt (effective_resolution df) c = get_dt df c"
  "has_col (effective_resolution df) c \<longleftrightarrow> c = ''_EffectiveResolutionDT'' \<or> has_col df c"
  by (simp_all add: effective_resolution_def Let_def)

lemma effective_resolution_col [simp]:
  "get_dt (effective_resolution df) ''_EffectiveResolutionDT'' =
     loc_assign (responded_after_raised (get_dt df ''_ClosedOnDT'') (get_dt df ''_RespondedOnDT'')
                   (get_dt df ''_RaisedOnDT''))
       (get_dt df ''_RespondedOnDT'') (get_dt df ''_ClosedOnDT'')"
  by (simp add: effective_resolution_def Let_def)

lemma timings_frame [simp]:
  "nrows (timings df) = nrows df"
  "c \<noteq> ''Computed Closure Time (Hrs)'' \<Longrightarrow> c \<noteq> ''Responding Time (Hrs)'' \<Longrightarrow>
   safe_get (timings df) c = safe_get df c"
  "c \<noteq> ''Computed Closure Time (Hrs)'' \<Longrightarrow> c \<noteq> ''Responding Time (Hrs)'' \<Longrightarrow>
   get_dt (timings df) c = get_dt df c"
  "has_col (timings df) c \<longleftrightarrow>
     c = ''Responding Time (Hrs)'' \<or> c = ''Computed Closure Time (Hrs)'' \<or> has_col df c"
  by (simp_all add: timings_def Let_def)

lemma responded_not_closed_frame [simp]:
  "nrows (responded_not_closed df) = nrows df"
  "c \<noteq> ''_RespondedNotClosed_Flag'' \<Longrightarrow> safe_get (responded_not_closed df) c = safe_get df c"
  "c \<noteq> ''_RespondedNotClosed_Flag'' \<Longrightarrow> get_dt (responded_not_closed df) c = get_dt df c"
  "has_col (responded_not_closed df) c \<longleftrightarrow> c = ''_RespondedNotClosed_Flag'' \<or> has_col df c"
  by (simp_all add: responded_not_closed_def)

lemma close_after_response_frame [simp]:
  "nrows (close_after_response df) = nrows df"
  "c \<noteq> ''Close After Response (Hrs)'' \<Longrightarrow> safe_get (close_after_response df) c = safe_get df c"
  "c \<noteq> ''Close After Response (Hrs)'' \<Longrightarrow> get_dt (close_after_response df) c = get_dt df c"
  "has_col (close_after_response df) c \<longleftrightarrow> c = ''Close After Response (Hrs)'' \<or> has_col df c"
  by (simp_all add: close_after_response_def Let_def)

lemma sla_met_frame [simp]:
  "nrows (sla_met df) = nrows df"
  "c \<noteq> ''SLA Met'' \<Longrightarrow> safe_get (sla_met df) c = safe_get df c"
  "c \<noteq> ''SLA Met'' \<Longrightarrow> get_dt (sla_met df) c = get_dt df c"
  "has_col (sla_met df) c \<longleftrightarrow> c = ''SLA Met'' \<or> has_col df c"
  by (simp_all add: sla_met_def Let_def)

lemma total_cost_fallback_frame [simp]:
  "nrows (total_cost_fallback L df) = nrows df"
  "c \<noteq> ''Total Cost'' \<Longrightarrow> safe_get (total_cost_fallback L df) c = safe_get df c"
  "c \<noteq> ''Total Cost'' \<Longrightarrow> get_dt (total_cost_fallback L df) c = get_dt df c"
  "has_col (total_cost_fallback L df) c \<longleftrightarrow> has_col df c"
  by (auto simp: total_cost_fallback_def Let_def)

lemma r2c_flag_frame [simp]:
  "nrows (r2c_flag L df) = nrows df"
  "c \<noteq> ''_R2C_Flag'' \<Longrightarrow> safe_get (r2c_flag L df) c = safe_get df c"
  "c \<noteq> ''_R2C_Flag'' \<Longrightarrow> get_dt (r2c_flag L df) c = get_dt df c"
  "has_col (r2c_flag L df) c \<longleftrightarrow> c = ''_R2C_Flag'' \<or> has_col df c"
  by (simp_all add: r2c_flag_def Let_def)

lemma r2c_strict_frame [simp]:
  "nrows (r2c_strict df) = nrows df"
  "c \<noteq> ''_R2C_Strict_Flag'' \<Longrightarrow> c \<noteq> ''R2C Hours (>=0)'' \<Longrightarrow>
   safe_get (r2c_strict df) c = safe_get df c"
  "c \<noteq> ''_R2C_Strict_Flag'' \<Longrightarrow> c \<noteq> ''R2C Hours (>=0)'' \<Longrightarrow>
   get_dt (r2c_strict df) c = get_dt df c"
  "has_col (r2c_strict df) c \<longleftrightarrow>
     c = ''R2C Hours (>=0)'' \<or> c = ''_R2C_Strict_Flag'' \<or> has_col df c"
  by (simp_all add: r2c_strict_def Let_def)

lemma last_status_change_frame [simp]:
  "nrows (last_status_change df) = nrows df"
  "c \<noteq> ''_LastStatusChangeDT'' \<Longrightarrow> safe_get (last_status_change df) c = safe_get df c"
  "c \<noteq> ''_LastStatusChangeDT'' \<Longrightarrow> get_dt (last_status_change df) c = get_dt df c"
  "has_col (last_status_change df) c \<longleftrightarrow> c = ''_LastStatusChangeDT'' \<or> has_col df c"
  by (simp_all add: last_status_change_def Let_def)

lemma last_status_change_col [simp]:
  "get_dt (last_status_change df) ''_LastStatusChangeDT'' =
     max_axis1 (nrows df) [get_dt df ''_ClosedOnDT'', get_dt df ''_RejectedOnDT'',
        get_dt df ''_RespondedOnDT'', get_dt df ''_EffectiveResolutionDT'']"
  by (simp add: last_status_change_def Let_def)

lemma last_status_event_object_frame [simp]:
  "nrows (last_status_event_object df) = nrows df"
  "c \<noteq> ''_LastStatusEvent'' \<Longrightarrow> safe_get (last_status_event_object df) c = safe_get df c"
  "c \<noteq> ''_LastStatusEvent'' \<Longrightarrow> get_dt (last_status_event_object df) c = get_dt df c"
  "has_col (last_status_event_object df) c \<longleftrightarrow> c = ''_LastStatusEvent'' \<or> has_col df c"
  by (simp_all add: last_status_event_object_def Let_def)

lemma last_status_event_priority_frame [simp]:
  "nrows (last_status_event_priority df) = nrows df"
  "c \<noteq> ''_LastStatusEvent'' \<Longrightarrow> safe_get (last_status_event_priority df) c = safe_get df c"
  "c \<noteq> ''_LastStatusEvent'' \<Longrightarrow> get_dt (last_status_event_priority df) c = get_dt df c"
  "has_col (last_status_event_priority df) c \<longleftrightarrow> c = ''_LastStatusEvent'' \<or> has_col df c"
  by (simp_all add: last_status_event_priority_def Let_def)

subsection \<open>The columns of the enriched table\<close>

lemma nrows_add_derived_columns [simp]: "nrows (add_derived_columns L df) = nrows df"
  by (simp add: add_derived_columns_def Let_def)

lemma out_instants:
  "get_dt (add_derived_columns L df) ''_RaisedOnDT'' =
     combine_datetime L (safe_get df ''Raised On Date'') (safe_get df ''Raised On Time'')"
  "get_dt (add_derived_columns L df) ''_DeadlineDT'' =
     combine_datetime L (safe_get df ''Deadline Date'') (safe_get df ''Deadline Time'')"
  "get_dt (add_derived_columns L df) ''_RespondedOnDT'' =
     combine_datetime L (safe_get df ''Responded On Date'') (safe_get df ''Responded On Time'')"
  "get_dt (add_derived_columns L df) ''_RejectedOnDT'' =
     combine_datetime L (safe_get df ''Rejected On Date'') (safe_get df ''Rejected On Time'')"
  "get_dt (add_derived_columns L df) ''_ClosedOnDT'' =
     combine_datetime L (safe_get df ''Closed On Date'') (safe_get df ''Closed On Time'')"
  by (simp_all add: add_derived_columns_def Let_def)

lemma out_effective:
  "get_dt (add_derived_columns L df) ''_EffectiveResolutionDT'' =
     loc_assign
       (responded_after_raised (get_dt (add_derived_columns L df) ''_ClosedOnDT'')
          (get_dt (add_derived_columns L df) ''_RespondedOnDT'')
          (get_dt (add_derived_columns L df) ''_RaisedOnDT''))
       (get_dt (add_derived_columns L df) ''_RespondedOnDT'')
       (get_dt (add_derived_columns L df) ''_ClosedOnDT'')"
  by (simp add: add_derived_columns_def Let_def)

subsection \<open>Lengths\<close>

lemma length_safe_get: "well_formed df \<Longrightarrow> length (safe_get df c) = nrows df"
  by (auto simp: well_formed_def safe_get_def split: option.splits)

lemma length_combine_datetime:
  "length (combine_datetime L ds ts) = min (length ds) (length ts)"
  by (simp add: combine_datetime_def Let_def normalize_series_date_def normalize_series_time_def
      vec_length)

lemma to_datetime_empty: "to_datetime [] = None"
  by code_simp

lemma nth_combine_datetime:
  assumes "length ts = length ds" and "i < length ds"
  shows "combine_datetime L ds ts ! i =
     (let d = normalize_date_str (astype_str L (ds ! i));
          t = normalize_time_str (astype_str L (ts ! i))
      in if d = [] then None
         else to_datetime (d @ '' '' @ (if t = [] then ''00:00:00'' else t)))"
  using assms
  by (simp add: combine_datetime_def Let_def normalize_series_date_def normalize_series_time_def
      nth_np_where nth_vand to_datetime_empty vec_length)

lemma out_lengths:
  assumes "well_formed df"
  shows "length (get_dt (add_derived_columns L df) ''_RaisedOnDT'') = nrows df"
    and "length (get_dt (add_derived_columns L df) ''_DeadlineDT'') = nrows df"
    and "length (get_dt (add_derived_columns L df) ''_RespondedOnDT'') = nrows df"
    and "length (get_dt (add_derived_columns L df) ''_RejectedOnDT'') = nrows df"
    and "length (get_dt (add_derived_columns L df) ''_ClosedOnDT'') = nrows df"
    and "length (get_dt (add_derived_columns L df) ''_EffectiveResolutionDT'') = nrows df"
  using assms
  by (simp_all add: out_effective vec_length, simp_all add: out_instants length_safe_get
      length_combine_datetime)

lemma out_flag_cols:
  "safe_get (add_derived_columns L df) ''_RespondedNotClosed_Flag'' =
     map cell_of_flag
       (responded_after_raised (get_dt (add_derived_columns L df) ''_ClosedOnDT'')
          (get_dt (add_derived_columns L df) ''_RespondedOnDT'')
          (get_dt (add_derived_columns L df) ''_RaisedOnDT''))"
  by (simp add: add_derived_columns_def Let_def responded_not_closed_def)

lemma out_close_after_response:
  "safe_get (add_derived_columns L df) ''Close After Response (Hrs)'' =
     (let eff = get_dt (add_derived_columns L df) ''_EffectiveResolutionDT'';
          responded = get_dt (add_derived_columns L df) ''_RespondedOnDT'';
          mask_car = vand (vand (notna eff) (notna responded)) (ge_dt eff responded)
      in map cell_of_float
           (np_where mask_car (hours_between eff responded) (replicate (length mask_car) None)))"
  by (simp add: add_derived_columns_def Let_def close_after_response_def)

lemma out_sla_met:
  "safe_get (add_derived_columns L df) ''SLA Met'' =
     (let deadline = get_dt (add_derived_columns L df) ''_DeadlineDT'';
          eff = get_dt (add_derived_columns L df) ''_EffectiveResolutionDT'';
          known = vand (notna deadline) (notna eff)
      in map cell_of_float
           (np_where known (map float_of_bool (le_dt eff deadline))
              (replicate (length known) None)))"
  by (simp add: add_derived_columns_def Let_def sla_met_def)

lemma out_r2c_strict:
  "safe_get (add_derived_columns L df) ''_R2C_Strict_Flag'' =
     map cell_of_flag (vand (notna (get_dt (add_derived_columns L df) ''_RejectedOnDT''))
       (notna (get_dt (add_derived_columns L df) ''_ClosedOnDT'')))"
  "safe_get (add_derived_columns L df) ''R2C Hours (>=0)'' =
     (let both_dt = vand (notna (get_dt (add_derived_columns L df) ''_RejectedOnDT''))
                      (notna (get_dt (add_derived_columns L df) ''_ClosedOnDT''));
          dur_hours = np_where both_dt
                        (hours_between (get_dt (add_derived_columns L df) ''_ClosedOnDT'')
                           (get_dt (add_derived_columns L df) ''_RejectedOnDT''))
                        (replicate (length both_dt) None)
      in map cell_of_float
           (np_where (map isfinite dur_hours) (map maximum0 dur_hours)
              (replicate (length dur_hours) None)))"
  by (simp_all add: add_derived_columns_def Let_def r2c_strict_def)

lemma out_last_status:
  "get_dt (add_derived_columns L df) ''_LastStatusChangeDT'' =
     max_axis1 (nrows df)
       [get_dt (add_derived_columns L df) ''_ClosedOnDT'',
        get_dt (add_derived_columns L df) ''_RejectedOnDT'',
        get_dt (add_derived_columns L df) ''_RespondedOnDT'',
        get_dt (add_derived_columns L df) ''_EffectiveResolutionDT'']"
  "safe_get (add_derived_columns L df) ''_LastStatusEvent'' =
     (let latest = get_dt (add_derived_columns L df) ''_LastStatusChangeDT'';
          n = length latest
      in map Str
         (np_where (eq_dt (get_dt (add_derived_columns L df) ''_ClosedOnDT'') latest)
            (replicate n ''Closed'')
         (np_where (eq_dt (get_dt (add_derived_columns L df) ''_RejectedOnDT'') latest)
            (replicate n ''Rejected'')
         (np_where (eq_dt (get_dt (add_derived_columns L df) ''_RespondedOnDT'') latest)
            (replicate n ''Responded'')
         (np_where (eq_dt (get_dt (add_derived_columns L df) ''_EffectiveResolutionDT'') latest)
            (replicate n ''Effective'') (replicate n ''nan''))))))"
  by (simp_all add: add_derived_columns_def Let_def last_status_event_priority_def)

subsection \<open>Aggregates of a row and of a column\<close>

lemma out_has_col:
  "has_col (add_derived_columns L df) c \<longleftrightarrow>
     c \<in> set [''_LastStatusEvent'', ''_LastStatusChangeDT'', ''R2C Hours (>=0)'',
       ''_R2C_Strict_Flag'', ''_R2C_Flag'', ''SLA Met'', ''Close After Response (Hrs)'',
       ''_RespondedNotClosed_Flag'', ''Responding Time (Hrs)'', ''Computed Closure Time (Hrs)'',
       ''_EffectiveResolutionDT'', ''_ClosedOnDT'', ''_RejectedOnDT'', ''_RespondedOnDT'',
       ''_DeadlineDT'', ''_RaisedOnDT'', ''Location Variable (Fixed)''] \<or>
     c \<in> set future_cols \<or> has_col df c"
  by (simp add: add_derived_columns_def Let_def disj_ac)

lemma sla_column_rows:
  assumes "length e = length d"
  shows "np_where (vand (notna d) (notna e)) (map float_of_bool (le_dt e d))
           (replicate (length (vand (notna d) (notna e))) None) =
         map (\<lambda>(x, y). if x \<noteq> None \<and> y \<noteq> None
                        then float_of_bool (cmp_dt (\<lambda>x y. x \<le> y) x y) else None) (zip e d)"
  using assms
  by (induction e d rule: list_induct2)
    (auto simp: np_where_def vand_def notna_def le_dt_def)

lemma dropna_sla:
  "dropna (map cell_of_float
     (map (\<lambda>(x, y). if x \<noteq> None \<and> y \<noteq> None
                      then float_of_bool (cmp_dt (\<lambda>x y. x \<le> y) x y) else None) zs)) =
   map (\<lambda>(x, y). Num (if cmp_dt (\<lambda>x y. x \<le> y) x y then 1 else 0))
     (filter (\<lambda>(x, y). x \<noteq> None \<and> y \<noteq> None) zs)"
  by (induction zs) (auto simp: dropna_def cell_of_float_def float_of_bool_def split: if_splits)

lemma cmp_dt_present: "cmp_dt r x y \<Longrightarrow> x \<noteq> None \<and> y \<noteq> None"
  by (simp add: cmp_dt_def split: option.splits)

lemma mean_nums:
  "mean (map (\<lambda>(x, y). Num (g x y)) zs) =
     Inr (sum_list (map (\<lambda>(x, y). g x y) zs) / real (length zs))"
  by (simp add: mean_def list_all_iff num_of_cell_def comp_def case_prod_unfold)

lemma count_met:
  "sum_list (map (\<lambda>(x, y). if cmp_dt (\<lambda>x y. x \<le> y) x y then 1 else (0::real))
              (filter (\<lambda>(x, y). x \<noteq> None \<and> y \<noteq> None) zs)) =
   real (length (filter (\<lambda>(x, y). cmp_dt (\<lambda>x y. x \<le> y) x y) zs))"
  by (induction zs) (auto dest: cmp_dt_present)

lemma sla_rate_of_rows:
  assumes "has_col df ''SLA Met''"
    and "safe_get df ''SLA Met'' = map cell_of_float
           (map (\<lambda>(x, y). if x \<noteq> None \<and> y \<noteq> None
                      then float_of_bool (cmp_dt (\<lambda>x y. x \<le> y) x y) else None) zs)"
  shows "sla_rate df =
     Inr (let known = filter (\<lambda>(x, y). x \<noteq> None \<and> y \<noteq> None) zs;
              met = filter (\<lambda>(x, y). cmp_dt (\<lambda>x y. x \<le> y) x y) zs
          in if known = [] then None
             else Some (real (length met) / real (length known) * 100))"
proof -
  have m: "mean (dropna (safe_get df ''SLA Met'')) =
      Inr (real (length (filter (\<lambda>(x, y). cmp_dt (\<lambda>x y. x \<le> y) x y) zs)) /
           real (length (filter (\<lambda>(x, y). x \<noteq> None \<and> y \<noteq> None) zs)))"
    unfolding assms(2) dropna_sla by (simp only: mean_nums count_met)
  have l: "length (dropna (safe_get df ''SLA Met'')) =
      length (filter (\<lambda>(x, y). x \<noteq> None \<and> y \<noteq> None) zs)"
    unfolding assms(2) dropna_sla by simp
  show ?thesis
    unfolding sla_rate_def Let_def using assms(1) by (simp add: m l)
qed

lemma total_cost_fallback_col:
  assumes "has_col df ''Total Cost''" and "list_all (has_col df) cost_parts"
  shows "safe_get (total_cost_fallback L df) ''Total Cost'' =
     map cell_of_float
       (fillna (map (to_numeric L) (safe_get df ''Total Cost''))
          (sum_axis1 (nrows df) (map (\<lambda>p. map (to_numeric L) (safe_get df p)) cost_parts)))"
proof -
  have "filter (has_col df) cost_parts = cost_parts"
    using assms(2) by (simp add: list_all_iff)
  then show ?thesis
    using assms(1) by (simp add: total_cost_fallback_def Let_def)
qed

lemma out_total_cost:
  "safe_get (add_derived_columns L df) ''Total Cost'' =
     map cell_of_float
       (fillna (map (to_numeric L) (safe_get df ''Total Cost''))
          (sum_axis1 (nrows df) (map (\<lambda>p. map (to_numeric L) (safe_get df p)) cost_parts)))"
proof -
  let ?d = "sla_met (close_after_response (responded_not_closed (timings
              (effective_resolution (datetimes L (location_fixed L (ensure_cols df)))))))"
  have h: "has_col ?d ''Total Cost''" "list_all (has_col ?d) cost_parts"
    by (simp_all add: future_cols_def cost_parts_def)
  have "safe_get (add_derived_columns L df) ''Total Cost'' =
          safe_get (total_cost_fallback L ?d) ''Total Cost''"
    by (simp add: add_derived_columns_def Let_def)
  also have "\<dots> = map cell_of_float
       (fillna (map (to_numeric L) (safe_get ?d ''Total Cost''))
          (sum_axis1 (nrows ?d) (map (\<lambda>p. map (to_numeric L) (safe_get ?d p)) cost_parts)))"
    by (rule total_cost_fallback_col[OF h])
  also have "\<dots> = map cell_of_float
       (fillna (map (to_numeric L) (safe_get df ''Total Cost''))
          (sum_axis1 (nrows df) (map (\<lambda>p. map (to_numeric L) (safe_get df p)) cost_parts)))"
    by (simp add: cost_parts_def)
  finally show ?thesis .
qed

lemma nth_sum_axis1: "i < n \<Longrightarrow> sum_axis1 n frame ! i = sum_min_count1 (row_of frame i)"
  by (simp add: sum_axis1_def)

lemma nth_fillna:
  "i < length s \<Longrightarrow> i < length other \<Longrightarrow>
   fillna s other ! i = (case s ! i of Some v \<Rightarrow> Some v | None \<Rightarrow> other ! i)"
  by (simp add: fillna_def)

lemma length_fillna: "length (fillna s other) = min (length s) (length other)"
  by (simp add: fillna_def)

lemma length_sum_axis1: "length (sum_axis1 n frame) = n"
  by (simp add: sum_axis1_def)

lemma foldl_max_Max: "foldl max (y::int) ys = Max (set (y # ys))"
proof -
  have "(\<lambda>x s. max s x) = (max :: int \<Rightarrow> int \<Rightarrow> int)"
    by (intro ext) (simp add: max.commute)
  then show ?thesis by (simp only: foldl_conv_fold Max.set_eq_fold)
qed

lemma max_skipna_spec: "max_skipna xs = spec_latest xs"
  by (simp add: max_skipna_def spec_latest_def foldl_max_Max split: list.splits)

lemma spec_latest_4:
  "spec_latest [c, j, r, e] = Some m \<Longrightarrow>
     (c = Some m \<or> j = Some m \<or> r = Some m \<or> e = Some m) \<and>
     (\<forall>t. c = Some t \<or> j = Some t \<or> r = Some t \<or> e = Some t \<longrightarrow> t \<le> m)"
  by (cases c; cases j; cases r; cases e)
    (auto simp: spec_latest_def List.map_filter_simps max_def split: if_splits)

lemma spec_latest_none:
  "spec_latest [c, j, r, e] = None \<longleftrightarrow> c = None \<and> j = None \<and> r = None \<and> e = None"
  by (cases c; cases j; cases r; cases e) (simp_all add: spec_latest_def List.map_filter_simps)

lemma nth_max_axis1: "i < n \<Longrightarrow> max_axis1 n frame ! i = max_skipna (row_of frame i)"
  by (simp add: max_axis1_def)

lemma length_max_axis1: "length (max_axis1 n frame) = n"
  by (simp add: max_axis1_def)

lemma label_of_latest:
  assumes "spec_latest [c, j, r, e] = Some m"
  shows "(if cmp_dt (\<lambda>x y. x = y) c (Some m) then ''Closed''
          else if cmp_dt (\<lambda>x y. x = y) j (Some m) then ''Rejected''
          else if cmp_dt (\<lambda>x y. x = y) r (Some m) then ''Responded''
          else if cmp_dt (\<lambda>x y. x = y) e (Some m) then ''Effective'' else ''nan'') =
         the (spec_last_status_event c j r e) \<and> spec_last_status_event c j r e \<noteq> None"
  using spec_latest_4[OF assms]
  by (auto simp: spec_last_status_event_def assms cmp_dt_def split: option.splits)

lemma out_latest_row:
  assumes "well_formed df" and "i < nrows df"
  shows "get_dt (add_derived_columns L df) ''_LastStatusChangeDT'' ! i =
           max_skipna [get_dt (add_derived_columns L df) ''_ClosedOnDT'' ! i,
                       get_dt (add_derived_columns L df) ''_RejectedOnDT'' ! i,
                       get_dt (add_derived_columns L df) ''_RespondedOnDT'' ! i,
                       get_dt (add_derived_columns L df) ''_EffectiveResolutionDT'' ! i]"
  using assms(2) by (simp add: out_last_status(1) nth_max_axis1 row_of_def)

lemma out_label_row:
  assumes "well_formed df" and "i < nrows df"
  shows "safe_get (add_derived_columns L df) ''_LastStatusEvent'' ! i =
      Str (if cmp_dt (\<lambda>x y. x = y) (get_dt (add_derived_columns L df) ''_ClosedOnDT'' ! i)
                (get_dt (add_derived_columns L df) ''_LastStatusChangeDT'' ! i) then ''Closed''
           else if cmp_dt (\<lambda>x y. x = y) (get_dt (add_derived_columns L df) ''_RejectedOnDT'' ! i)
                (get_dt (add_derived_columns L df) ''_LastStatusChangeDT'' ! i) then ''Rejected''
           else if cmp_dt (\<lambda>x y. x = y) (get_dt (add_derived_columns L df) ''_RespondedOnDT'' ! i)
                (get_dt (add_derived_columns L df) ''_LastStatusChangeDT'' ! i) then ''Responded''
           else if cmp_dt (\<lambda>x y. x = y)
                (get_dt (add_derived_columns L df) ''_EffectiveResolutionDT'' ! i)
                (get_dt (add_derived_columns L df) ''_LastStatusChangeDT'' ! i) then ''Effective''
           else ''nan'')"
proof -
  note len = out_lengths[OF assms(1), of L]
  have lenm: "length (get_dt (add_derived_columns L df) ''_LastStatusChangeDT'') = nrows df"
    by (simp add: out_last_status(1) length_max_axis1)
  show ?thesis
    using assms(2)
    by (simp add: out_last_status(2) Let_def lenm len nth_np_where nth_cmp vec_length)
qed

lemma out_effective_closed:
  assumes "well_formed df" and "i < nrows df"
    and "get_dt (add_derived_columns L df) ''_ClosedOnDT'' ! i \<noteq> None"
  shows "get_dt (add_derived_columns L df) ''_EffectiveResolutionDT'' ! i =
         get_dt (add_derived_columns L df) ''_ClosedOnDT'' ! i"
  using assms(2,3)
  by (subst out_effective)
    (auto simp: nth_loc_assign nth_responded_after_raised out_lengths[OF assms(1)] vec_length)


subsection \<open>Evaluating the parser and the small register\<close>

lemma digit_chars:
  "char_of (48::nat) = CHR ''0''" "char_of (49::nat) = CHR ''1''" "char_of (50::nat) = CHR ''2''"
  "char_of (51::nat) = CHR ''3''" "char_of (52::nat) = CHR ''4''" "char_of (53::nat) = CHR ''5''"
  "char_of (54::nat) = CHR ''6''" "char_of (55::nat) = CHR ''7''" "char_of (56::nat) = CHR ''8''"
  "char_of (57::nat) = CHR ''9''"
  by code_simp+

lemma str_nat_numeral:
  "str_nat (numeral k) = (if (numeral k :: nat) < 10 then [char_of (48 + (numeral k :: nat))]
                else str_nat (numeral k div 10) @ [char_of (48 + (numeral k :: nat) mod 10)])"
  "str_nat 0 = ''0''" "str_nat 1 = ''1''" "str_nat (Suc 0) = ''1''"
  by (simp_all add: str_nat.simps[of "numeral k"] str_nat.simps[of 0] str_nat.simps[of "Suc 0"]
      digit_chars)

lemmas fmt_eval = fmt_d_def str_nat_numeral digit_chars ymd_str_def hms_str_def

lemma ddmmyyyy_slash_eval:
  assumes "\<not> is_missing_str s"
    and "match_date_ddmmyyyy (CHR ''/'') (strip s) = Some (g1, g2, g3)"
  shows "normalize_date_str s =
           ymd_str (norm_year (int_of_digits g3)) (int_of_digits g2) (int_of_digits g1)"
  using assms by (simp add: normalize_date_str_def)

lemma example_dates:
  "normalize_date_str ''1/1/2024'' = ''2024-01-01''"
  "normalize_date_str ''2/1/2024'' = ''2024-01-02''"
  "normalize_date_str ''3/1/2024'' = ''2024-01-03''"
  "normalize_date_str ''31/12/2023'' = ''2023-12-31''"
  "normalize_date_str ''nan'' = []"
proof -
  have m: "\<not> is_missing_str ''1/1/2024''" "\<not> is_missing_str ''2/1/2024''"
    "\<not> is_missing_str ''3/1/2024''" "\<not> is_missing_str ''31/12/2023''"
    by code_simp+
  have g: "match_date_ddmmyyyy (CHR ''/'') (strip ''1/1/2024'') = Some (''1'', ''1'', ''2024'')"
    "match_date_ddmmyyyy (CHR ''/'') (strip ''2/1/2024'') = Some (''2'', ''1'', ''2024'')"
    "match_date_ddmmyyyy (CHR ''/'') (strip ''3/1/2024'') = Some (''3'', ''1'', ''2024'')"
    "match_date_ddmmyyyy (CHR ''/'') (strip ''31/12/2023'') = Some (''31'', ''12'', ''2023'')"
    by code_simp+
  have n: "int_of_digits ''1'' = 1" "int_of_digits ''2'' = 2" "int_of_digits ''3'' = 3"
    "int_of_digits ''31'' = 31" "int_of_digits ''12'' = 12"
    "int_of_digits ''2024'' = 2024" "int_of_digits ''2023'' = 2023"
    by code_simp+
  show "normalize_date_str ''1/1/2024'' = ''2024-01-01''"
    by (simp add: ddmmyyyy_slash_eval[OF m(1) g(1)] n norm_year_def fmt_eval)
  show "normalize_date_str ''2/1/2024'' = ''2024-01-02''"
    by (simp add: ddmmyyyy_slash_eval[OF m(2) g(2)] n norm_year_def fmt_eval)
  show "normalize_date_str ''3/1/2024'' = ''2024-01-03''"
    by (simp add: ddmmyyyy_slash_eval[OF m(3) g(3)] n norm_year_def fmt_eval)
  show "normalize_date_str ''31/12/2023'' = ''2023-12-31''"
    by (simp add: ddmmyyyy_slash_eval[OF m(4) g(4)] n norm_year_def fmt_eval)
  show "normalize_date_str ''nan'' = []"
    by code_simp
qed

lemma example_times:
  "normalize_time_str ''10:00'' = ''10:00:00''"
  "normalize_time_str ''nan'' = []"
  by code_simp+

lemma example_parses:
  "to_datetime ''2024-01-01 10:00:00'' = Some 1704103200"
  "to_datetime ''2024-01-01 00:00:00'' = Some 1704067200"
  "to_datetime ''2024-01-02 00:00:00'' = Some 1704153600"
  "to_datetime ''2024-01-03 00:00:00'' = Some 1704240000"
  "to_datetime ''2023-12-31 00:00:00'' = Some 1703980800"
  by code_simp+

lemma example_wf: "well_formed example_df"
  by (auto simp: well_formed_def example_df_def split: if_splits)

lemma example_nrows: "nrows example_df = 4"
  by (simp add: example_df_def)

lemma example_raw:
  "safe_get example_df ''Raised On Date'' =
     [Str ''1/1/2024'', Str ''1/1/2024'', Str ''1/1/2024'', Str ''1/1/2024'']"
  "safe_get example_df ''Raised On Time'' = [Str ''10:00'', NaN, NaN, NaN]"
  "safe_get example_df ''Deadline Date'' = [Str ''2/1/2024'', NaN, Str ''1/1/2024'', Str ''1/1/2024'']"
  "safe_get example_df ''Deadline Time'' = [NaN, NaN, NaN, NaN]"
  "safe_get example_df ''Responded On Date'' =
     [Str ''2/1/2024'', Str ''2/1/2024'', Str ''31/12/2023'', Str ''2/1/2024'']"
  "safe_get example_df ''Responded On Time'' = [NaN, NaN, NaN, NaN]"
  "safe_get example_df ''Rejected On Date'' = [Str ''3/1/2024'', NaN, NaN, NaN]"
  "safe_get example_df ''Rejected On Time'' = [NaN, Str ''10:00'', NaN, NaN]"
  "safe_get example_df ''Closed On Date'' = [Str ''2/1/2024'', NaN, NaN, Str ''2/1/2024'']"
  "safe_get example_df ''Closed On Time'' = [NaN, NaN, NaN, NaN]"
  by (simp_all add: safe_get_def example_df_def numeral_eq_Suc)

lemmas combine_eval = combine_datetime_def normalize_series_date_def normalize_series_time_def
  np_where_def vand_def astype_str_def example_dates example_times example_parses
  to_datetime_empty Let_def

lemma example_instants:
  "get_dt (add_derived_columns example_lib example_df) ''_RaisedOnDT'' =
     [Some 1704103200, Some 1704067200, Some 1704067200, Some 1704067200]"
  "get_dt (add_derived_columns example_lib example_df) ''_DeadlineDT'' =
     [Some 1704153600, None, Some 1704067200, Some 1704067200]"
  "get_dt (add_derived_columns example_lib example_df) ''_RespondedOnDT'' =
     [Some 1704153600, Some 1704153600, Some 1703980800, Some 1704153600]"
  "get_dt (add_derived_columns example_lib example_df) ''_RejectedOnDT'' =
     [Some 1704240000, None, None, None]"
  "get_dt (add_derived_columns example_lib example_df) ''_ClosedOnDT'' =
     [Some 1704153600, None, None, Some 1704153600]"
  by (simp_all add: out_instants example_raw combine_eval)


lemma example_flag:
  "safe_get (add_derived_columns example_lib example_df) ''_RespondedNotClosed_Flag''
     = [Num 0, Num 1, Num 0, Num 0]"
  by (simp add: out_flag_cols example_instants responded_after_raised_def vand_def isna_def
      notna_def gt_dt_def cmp_dt_def cell_of_flag_def)

lemma example_effective:
  "get_dt (add_derived_columns example_lib example_df) ''_EffectiveResolutionDT'' =
     [Some 1704153600, Some 1704153600, None, Some 1704153600]"
  by (simp add: out_effective example_instants responded_after_raised_def vand_def isna_def
      notna_def gt_dt_def cmp_dt_def loc_assign_def)

lemma example_costs:
  "safe_get example_df ''Total Cost'' = [NaN, Num 500, NaN, Str ''n/a'']"
  "safe_get example_df ''Labour Cost'' = [Num 100, Num 1, NaN, Str ''x'']"
  "safe_get example_df ''Material Cost'' = [NaN, NaN, NaN, NaN]"
  "safe_get example_df ''Machinery Cost'' = [Num 50, Num 1, NaN, Num 5]"
  "safe_get example_df ''Other Cost'' = [NaN, NaN, NaN, NaN]"
  by (simp_all add: safe_get_def example_df_def numeral_eq_Suc)



subsection \<open>A second pass over the enriched table\<close>

lemma df_set_same: "has_col df c \<Longrightarrow> safe_get df c = v \<Longrightarrow> df_set c v df = df"
  by (auto simp: has_col_def safe_get_def df_set_def fun_upd_idem)

lemma df_set_twice: "df_set c v (df_set c w df) = df_set c v df"
  by (simp add: df_set_def)

lemma out_raw:
  assumes "c \<notin> set [''_LastStatusEvent'', ''_LastStatusChangeDT'', ''R2C Hours (>=0)'',
       ''_R2C_Strict_Flag'', ''_R2C_Flag'', ''Total Cost'', ''SLA Met'',
       ''Close After Response (Hrs)'', ''_RespondedNotClosed_Flag'', ''Responding Time (Hrs)'',
       ''Computed Closure Time (Hrs)'', ''_EffectiveResolutionDT'', ''_ClosedOnDT'',
       ''_RejectedOnDT'', ''_RespondedOnDT'', ''_DeadlineDT'', ''_RaisedOnDT'',
       ''Location Variable (Fixed)'']"
  shows "safe_get (add_derived_columns L df) c = safe_get df c"
  using assms by (simp add: add_derived_columns_def Let_def)

lemma ensure_cols_out: "ensure_cols (add_derived_columns L df) = add_derived_columns L df"
  by (simp add: ensure_cols_def future_cols_def ensure_col_def out_has_col)

lemma out_location:
  "safe_get (add_derived_columns L df) ''Location Variable (Fixed)'' =
     (if has_col df ''Location Variable''
      then extract_location_variable L (safe_get df ''Location Variable'')
      else replicate (nrows df) NaN)"
  by (simp add: add_derived_columns_def Let_def location_fixed_def future_cols_def)

lemma location_fixed_out:
  "location_fixed L (add_derived_columns L df) = add_derived_columns L df"
proof (cases "has_col df ''Location Variable''")
  case True
  then have h: "has_col (add_derived_columns L df) ''Location Variable''"
    by (simp add: out_has_col)
  show ?thesis
    unfolding location_fixed_def using h True
    by (simp add: df_set_same out_has_col out_location out_raw)
next
  case False
  then have h: "\<not> has_col (add_derived_columns L df) ''Location Variable''"
    by (simp add: out_has_col future_cols_def)
  show ?thesis
    unfolding location_fixed_def df_set_scalar_def using h False
    by (simp add: df_set_same out_has_col out_location)
qed

lemma out_instants_cells:
  "safe_get (add_derived_columns L df) ''_RaisedOnDT'' = map cell_of_dt
     (combine_datetime L (safe_get df ''Raised On Date'') (safe_get df ''Raised On Time''))"
  "safe_get (add_derived_columns L df) ''_DeadlineDT'' = map cell_of_dt
     (combine_datetime L (safe_get df ''Deadline Date'') (safe_get df ''Deadline Time''))"
  "safe_get (add_derived_columns L df) ''_RespondedOnDT'' = map cell_of_dt
     (combine_datetime L (safe_get df ''Responded On Date'') (safe_get df ''Responded On Time''))"
  "safe_get (add_derived_columns L df) ''_RejectedOnDT'' = map cell_of_dt
     (combine_datetime L (safe_get df ''Rejected On Date'') (safe_get df ''Rejected On Time''))"
  "safe_get (add_derived_columns L df) ''_ClosedOnDT'' = map cell_of_dt
     (combine_datetime L (safe_get df ''Closed On Date'') (safe_get df ''Closed On Time''))"
  by (simp_all add: add_derived_columns_def Let_def datetimes_def)

lemma datetimes_out: "datetimes L (add_derived_columns L df) = add_derived_columns L df"
proof -
  let ?out = "add_derived_columns L df"
  have 1: "set_dt ''_RaisedOnDT'' (combine_datetime L (safe_get ?out ''Raised On Date'')
             (safe_get ?out ''Raised On Time'')) ?out = ?out"
    unfolding set_dt_def
    by (rule df_set_same) (simp_all add: out_has_col out_instants_cells out_raw)
  have 2: "set_dt ''_DeadlineDT'' (combine_datetime L (safe_get ?out ''Deadline Date'')
             (safe_get ?out ''Deadline Time'')) ?out = ?out"
    unfolding set_dt_def
    by (rule df_set_same) (simp_all add: out_has_col out_instants_cells out_raw)
  have 3: "set_dt ''_RespondedOnDT'' (combine_datetime L (safe_get ?out ''Responded On Date'')
             (safe_get ?out ''Responded On Time'')) ?out = ?out"
    unfolding set_dt_def
    by (rule df_set_same) (simp_all add: out_has_col out_instants_cells out_raw)
  have 4: "set_dt ''_RejectedOnDT'' (combine_datetime L (safe_get ?out ''Rejected On Date'')
             (safe_get ?out ''Rejected On Time'')) ?out = ?out"
    unfolding set_dt_def
    by (rule df_set_same) (simp_all add: out_has_col out_instants_cells out_raw)
  have 5: "set_dt ''_ClosedOnDT'' (combine_datetime L (safe_get ?out ''Closed On Date'')
             (safe_get ?out ''Closed On Time'')) ?out = ?out"
    unfolding set_dt_def
    by (rule df_set_same) (simp_all add: out_has_col out_instants_cells out_raw)
  show ?thesis
    unfolding datetimes_def Let_def by (simp only: 1 2 3 4 5)
qed

lemma out_effective_cells:
  "safe_get (add_derived_columns L df) ''_EffectiveResolutionDT'' = map cell_of_dt
     (loc_assign
       (responded_after_raised (get_dt (add_derived_columns L df) ''_ClosedOnDT'')
          (get_dt (add_derived_columns L df) ''_RespondedOnDT'')
          (get_dt (add_derived_columns L df) ''_RaisedOnDT''))
       (get_dt (add_derived_columns L df) ''_RespondedOnDT'')
       (get_dt (add_derived_columns L df) ''_ClosedOnDT''))"
  by (simp add: add_derived_columns_def Let_def effective_resolution_def)

lemma effective_resolution_out:
  "effective_resolution (add_derived_columns L df) = add_derived_columns L df"
  unfolding effective_resolution_def Let_def set_dt_def
  by (rule df_set_same) (simp_all add: out_has_col out_effective_cells)

lemma out_timings:
  "safe_get (add_derived_columns L df) ''Computed Closure Time (Hrs)'' = map cell_of_float
     (hours_between (get_dt (add_derived_columns L df) ''_EffectiveResolutionDT'')
        (get_dt (add_derived_columns L df) ''_RaisedOnDT''))"
  "safe_get (add_derived_columns L df) ''Responding Time (Hrs)'' = map cell_of_float
     (hours_between (get_dt (add_derived_columns L df) ''_RespondedOnDT'')
        (get_dt (add_derived_columns L df) ''_RaisedOnDT''))"
  by (simp_all add: add_derived_columns_def Let_def timings_def)

lemma timings_out: "timings (add_derived_columns L df) = add_derived_columns L df"
proof -
  let ?out = "add_derived_columns L df"
  have 1: "set_float ''Computed Closure Time (Hrs)''
             (hours_between (get_dt ?out ''_EffectiveResolutionDT'') (get_dt ?out ''_RaisedOnDT''))
             ?out = ?out"
    unfolding set_float_def by (rule df_set_same) (simp_all add: out_has_col out_timings)
  have 2: "set_float ''Responding Time (Hrs)''
             (hours_between (get_dt ?out ''_RespondedOnDT'') (get_dt ?out ''_RaisedOnDT''))
             ?out = ?out"
    unfolding set_float_def by (rule df_set_same) (simp_all add: out_has_col out_timings)
  show ?thesis unfolding timings_def Let_def by (simp only: 1 2)
qed

lemma responded_not_closed_out:
  "responded_not_closed (add_derived_columns L df) = add_derived_columns L df"
  unfolding responded_not_closed_def set_flag_def
  by (rule df_set_same) (simp_all add: out_has_col out_flag_cols)

lemma close_after_response_out:
  "close_after_response (add_derived_columns L df) = add_derived_columns L df"
  unfolding close_after_response_def Let_def set_float_def
  by (rule df_set_same) (simp_all add: out_has_col out_close_after_response Let_def)

lemma sla_met_out: "sla_met (add_derived_columns L df) = add_derived_columns L df"
  unfolding sla_met_def Let_def set_float_def
  by (rule df_set_same) (simp_all add: out_has_col out_sla_met Let_def)

lemma to_numeric_cell_of_float [simp]: "to_numeric L (cell_of_float x) = x"
  by (cases x) (simp_all add: to_numeric_def cell_of_float_def)

lemma to_numeric_comp [simp]: "to_numeric L \<circ> cell_of_float = (\<lambda>x. x)"
  by (rule ext) simp

lemma fillna_idem: "fillna (fillna s other) other = fillna s other"
  by (induction s other rule: list_induct2') (simp_all add: fillna_def split: option.splits)

lemma total_cost_fallback_out:
  "total_cost_fallback L (add_derived_columns L df) = add_derived_columns L df"
proof -
  let ?out = "add_derived_columns L df"
  have h: "has_col ?out ''Total Cost''" by (simp add: out_has_col future_cols_def)
  have f: "filter (has_col ?out) cost_parts = cost_parts"
    by (simp add: out_has_col future_cols_def cost_parts_def)
  have p: "map (\<lambda>p. map (to_numeric L) (safe_get ?out p)) cost_parts =
           map (\<lambda>p. map (to_numeric L) (safe_get df p)) cost_parts"
    by (simp add: cost_parts_def out_raw)
  have "set_float ''Total Cost''
          (fillna (map (to_numeric L) (safe_get ?out ''Total Cost''))
             (sum_axis1 (nrows ?out)
                (map (\<lambda>p. map (to_numeric L) (safe_get ?out p))
                   (filter (has_col ?out) cost_parts)))) ?out = ?out"
    unfolding set_float_def f p
    by (rule df_set_same[OF h]) (simp add: out_total_cost fillna_idem)
  then show ?thesis
    unfolding total_cost_fallback_def Let_def using h by simp
qed

lemma nz_out:
  assumes "c \<notin> set [''_LastStatusEvent'', ''_LastStatusChangeDT'', ''R2C Hours (>=0)'',
       ''_R2C_Strict_Flag'', ''_R2C_Flag'', ''Total Cost'', ''SLA Met'',
       ''Close After Response (Hrs)'', ''_RespondedNotClosed_Flag'', ''Responding Time (Hrs)'',
       ''Computed Closure Time (Hrs)'', ''_EffectiveResolutionDT'', ''_ClosedOnDT'',
       ''_RejectedOnDT'', ''_RespondedOnDT'', ''_DeadlineDT'', ''_RaisedOnDT'',
       ''Location Variable (Fixed)'']"
  shows "nz L (add_derived_columns L df) c = nz L df c"
  by (simp only: nz_def out_raw[OF assms])

lemma out_r2c_flag:
  "safe_get (add_derived_columns L df) ''_R2C_Flag'' = map cell_of_flag
     (vand
        (vor (vor (vor (vor (notna (get_dt (add_derived_columns L df) ''_RejectedOnDT''))
          (ne_empty (nz L df ''Rejected By''))) (ne_empty (nz L df ''Rejected Comment'')))
          (ne_empty (nz L df ''Rejected On Date''))) (ne_empty (nz L df ''Rejected On Time'')))
        (vor (vor (vor (vor (vor (notna (get_dt (add_derived_columns L df) ''_ClosedOnDT''))
          (map closedish (map lower (nz L df ''Current Status''))))
          (ne_empty (nz L df ''Closed By''))) (ne_empty (nz L df ''Closed Comment'')))
          (ne_empty (nz L df ''Closed On Date''))) (ne_empty (nz L df ''Closed On Time''))))"
  by (simp add: add_derived_columns_def Let_def r2c_flag_def nz_def)

lemma r2c_flag_out: "r2c_flag L (add_derived_columns L df) = add_derived_columns L df"
  unfolding r2c_flag_def Let_def set_flag_def
  by (rule df_set_same) (simp_all add: out_has_col out_r2c_flag nz_out)

lemma r2c_strict_out: "r2c_strict (add_derived_columns L df) = add_derived_columns L df"
proof -
  let ?out = "add_derived_columns L df"
  have 1: "set_flag ''_R2C_Strict_Flag''
             (vand (notna (get_dt ?out ''_RejectedOnDT'')) (notna (get_dt ?out ''_ClosedOnDT'')))
             ?out = ?out"
    unfolding set_flag_def by (rule df_set_same) (simp_all add: out_has_col out_r2c_strict)
  show ?thesis
    unfolding r2c_strict_def Let_def 1 set_float_def
    by (rule df_set_same) (simp_all add: out_has_col out_r2c_strict Let_def)
qed

lemma out_last_status_cells:
  "safe_get (add_derived_columns L df) ''_LastStatusChangeDT'' = map cell_of_dt
     (max_axis1 (nrows df)
       [get_dt (add_derived_columns L df) ''_ClosedOnDT'',
        get_dt (add_derived_columns L df) ''_RejectedOnDT'',
        get_dt (add_derived_columns L df) ''_RespondedOnDT'',
        get_dt (add_derived_columns L df) ''_EffectiveResolutionDT''])"
  by (simp add: add_derived_columns_def Let_def last_status_change_def)

lemma last_status_change_out:
  "last_status_change (add_derived_columns L df) = add_derived_columns L df"
  unfolding last_status_change_def Let_def set_dt_def
  by (rule df_set_same) (simp_all add: out_has_col out_last_status_cells)

lemma last_status_event_out:
  "last_status_event_priority (last_status_event_object (add_derived_columns L df)) =
     add_derived_columns L df"
proof -
  let ?out = "add_derived_columns L df"
  obtain evt where e: "last_status_event_object ?out = df_set ''_LastStatusEvent'' evt ?out"
    by (simp add: last_status_event_object_def Let_def)
  show ?thesis
    unfolding last_status_event_priority_def Let_def
    apply (simp add: e df_set_twice)
    apply (rule df_set_same)
     apply (simp_all add: out_has_col out_last_status(2) Let_def)
    done
qed

lemma add_derived_columns_fixpoint:
  assumes "ensure_cols X = X" "location_fixed L X = X" "datetimes L X = X"
    "effective_resolution X = X" "timings X = X" "responded_not_closed X = X"
    "close_after_response X = X" "sla_met X = X" "total_cost_fallback L X = X"
    "r2c_flag L X = X" "r2c_strict X = X" "last_status_change X = X"
    "last_status_event_priority (last_status_event_object X) = X"
  shows "add_derived_columns L X = X"
  unfolding add_derived_columns_def Let_def by (simp only: assms)


section \<open>Date and time normalisation: what the code returns\<close>

text \<open>
  Claim C4: a date string whose digits match a recognised encoding but name no calendar day
  is said to normalise to the absent (empty) result. The date path formats the matched
  digits and checks nothing: day 32 of month 13 comes back as a non-empty string that is
  not a date. (The time path, next to it, checks the ranges of its fields.)
\<close>

theorem normalize_date_str_invalid_day:
  "normalize_date_str ''32/13/2020'' = ''2020-13-32''"
  by code_simp

lemma adjust_hour_gt12: "12 < h \<Longrightarrow> adjust_hour ampm h = h"
  by (simp add: adjust_hour_def)

lemma hms_str_nonempty: "hms_str hh mm ss \<noteq> []"
  by (simp add: hms_str_def)

text \<open>
  Claim C5, as stated, fails: \<^verbatim>\<open>13:00am\<close> is not rejected. The hour is only compared with
  23, after the am/pm adjustment, which leaves an hour above 12 as it is.
\<close>

theorem normalize_time_str_13am_accepted:
  "normalize_time_str ''13:00am'' = ''13:00:00'' \<and> normalize_time_str ''13:00am'' \<noteq> []"
  by code_simp

text \<open>
  Claim C5, amended: \<^verbatim>\<open>2:30pm\<close> and \<^verbatim>\<open>14:30:00\<close> both normalise to \<^verbatim>\<open>14:30:00\<close>; and
  for every input on which the 12-hour pattern matches with an hour above 12, the marker
  changes nothing: the result is the 24-hour time of the matched fields when the hour is at
  most 23 and minute and second are at most 59, and it is absent exactly when the hour is
  above 23 or a minute or second is above 59.
\<close>

theorem normalize_time_str_ampm_hour_above_12:
  assumes "\<not> is_missing_str s"
    and "match_time_hhmm_ampm (remove_dots (lower (strip s))) = Some (g1, g2, g3, g4)"
    and "12 < int_of_digits g1"
  shows "normalize_time_str ''2:30pm'' = ''14:30:00'' \<and>
         normalize_time_str ''14:30:00'' = ''14:30:00'' \<and>
         normalize_time_str s =
           (if int_of_digits g1 \<le> 23 \<and> int_of_digits g2 \<le> 59 \<and> seconds_group g3 \<le> 59
            then hms_str (int_of_digits g1) (int_of_digits g2) (seconds_group g3) else []) \<and>
         (normalize_time_str s = [] \<longleftrightarrow>
            23 < int_of_digits g1 \<or> 59 < int_of_digits g2 \<or> 59 < seconds_group g3)"
proof -
  have a: "normalize_time_str ''2:30pm'' = ''14:30:00''" by code_simp
  have b: "normalize_time_str ''14:30:00'' = ''14:30:00''" by code_simp
  have c: "normalize_time_str s =
           (if int_of_digits g1 \<le> 23 \<and> int_of_digits g2 \<le> 59 \<and> seconds_group g3 \<le> 59
            then hms_str (int_of_digits g1) (int_of_digits g2) (seconds_group g3) else [])"
    using assms by (simp add: normalize_time_str_def Let_def adjust_hour_gt12 in_time_range_def)
  have d: "normalize_time_str s = [] \<longleftrightarrow>
           23 < int_of_digits g1 \<or> 59 < int_of_digits g2 \<or> 59 < seconds_group g3"
    unfolding c using hms_str_nonempty by auto
  from a b c d show ?thesis by blast
qed

theorem normalize_time_str_ampm_hour_above_12_witness:
  "normalize_time_str ''13:00am'' = hms_str 13 0 0 \<and> normalize_time_str ''24:00 PM'' = []"
proof -
  have a: "\<not> is_missing_str ''13:00am''" by code_simp
  have b: "match_time_hhmm_ampm (remove_dots (lower (strip ''13:00am'')))
             = Some (''13'', ''00'', None, ''am'')" by code_simp
  have c: "12 < int_of_digits ''13''" by code_simp
  have d: "int_of_digits ''13'' = 13" "int_of_digits ''00'' = 0" "seconds_group None = 0"
    by code_simp+
  have a': "\<not> is_missing_str ''24:00 PM''" by code_simp
  have b': "match_time_hhmm_ampm (remove_dots (lower (strip ''24:00 PM'')))
              = Some (''24'', ''00'', None, ''pm'')" by code_simp
  have c': "12 < int_of_digits ''24''" by code_simp
  have d': "int_of_digits ''24'' = 24" by code_simp
  show ?thesis
    using normalize_time_str_ampm_hour_above_12[OF a b c]
      normalize_time_str_ampm_hour_above_12[OF a' b' c']
    by (simp add: d d')
qed

section \<open>The combiner, row by row\<close>

text \<open>
  Row by row, the combined instant is absent when the normalised date is absent, whatever
  the time cell holds; and when the normalised date is present and the normalised time is
  absent, it is the strict parse of that date followed by \<^verbatim>\<open>00:00:00\<close>.
\<close>

lemma combine_datetime_rows:
  assumes "length ts = length ds" and "i < length ds"
  shows "(normalize_date_str (astype_str L (ds ! i)) = [] \<longrightarrow>
            combine_datetime L ds ts ! i = None) \<and>
         (normalize_date_str (astype_str L (ds ! i)) \<noteq> [] \<and>
          normalize_time_str (astype_str L (ts ! i)) = [] \<longrightarrow>
            combine_datetime L ds ts ! i =
              to_datetime (normalize_date_str (astype_str L (ds ! i)) @ '' 00:00:00''))"
  using assms by (simp add: nth_combine_datetime Let_def)



section \<open>The lifecycle fields of the enriched table\<close>

text \<open>
  Claim C1: in every row of the enriched table, the effective resolution is the closing
  instant when there is one; otherwise it is the response instant when response and raising
  instants are both present and the response is strictly after the raising; otherwise it is
  absent.
\<close>

theorem effective_resolution_rule:
  assumes "well_formed df" and "i < nrows df"
  shows "get_dt (add_derived_columns L df) ''_EffectiveResolutionDT'' ! i =
     (case get_dt (add_derived_columns L df) ''_ClosedOnDT'' ! i of
        Some c \<Rightarrow> Some c
      | None \<Rightarrow>
          (case get_dt (add_derived_columns L df) ''_RespondedOnDT'' ! i of
             None \<Rightarrow> None
           | Some r \<Rightarrow>
               (case get_dt (add_derived_columns L df) ''_RaisedOnDT'' ! i of
                  None \<Rightarrow> None
                | Some a \<Rightarrow> if a < r then Some r else None)))"
proof -
  let ?out = "add_derived_columns L df"
  note len = out_lengths[OF assms(1), of L]
  have "get_dt ?out ''_EffectiveResolutionDT'' ! i =
      (if responded_after_raised (get_dt ?out ''_ClosedOnDT'') (get_dt ?out ''_RespondedOnDT'')
            (get_dt ?out ''_RaisedOnDT'') ! i
       then get_dt ?out ''_RespondedOnDT'' ! i else get_dt ?out ''_ClosedOnDT'' ! i)"
    by (subst out_effective) (simp add: nth_loc_assign len assms(2) vec_length)
  then show ?thesis
    by (auto simp: nth_responded_after_raised len assms(2) split: option.splits)
qed

theorem effective_resolution_rule_witness:
  "get_dt (add_derived_columns example_lib example_df) ''_EffectiveResolutionDT'' ! 0
     = Some 1704153600 \<and>
   get_dt (add_derived_columns example_lib example_df) ''_EffectiveResolutionDT'' ! 1
     = Some 1704153600 \<and>
   get_dt (add_derived_columns example_lib example_df) ''_EffectiveResolutionDT'' ! 2 = None"
  using effective_resolution_rule[OF example_wf, of 0 example_lib]
    effective_resolution_rule[OF example_wf, of 1 example_lib]
    effective_resolution_rule[OF example_wf, of 2 example_lib]
  by (simp add: example_instants example_nrows)

text \<open>
  Claim C10: in every row whose responded-not-closed flag is set, the effective resolution
  is present and is the response instant, and the close-after-response time is 0 hours.
\<close>

theorem responded_not_closed_is_resolved:
  assumes "well_formed df" and "i < nrows df"
    and "safe_get (add_derived_columns L df) ''_RespondedNotClosed_Flag'' ! i = Num 1"
  shows "get_dt (add_derived_columns L df) ''_EffectiveResolutionDT'' ! i \<noteq> None \<and>
         get_dt (add_derived_columns L df) ''_EffectiveResolutionDT'' ! i =
           get_dt (add_derived_columns L df) ''_RespondedOnDT'' ! i \<and>
         safe_get (add_derived_columns L df) ''Close After Response (Hrs)'' ! i = Num 0"
proof -
  let ?out = "add_derived_columns L df"
  note len = out_lengths[OF assms(1), of L]
  let ?m = "responded_after_raised (get_dt ?out ''_ClosedOnDT'') (get_dt ?out ''_RespondedOnDT'')
              (get_dt ?out ''_RaisedOnDT'')"
  have m: "?m ! i"
    using assms(2,3)
    by (simp add: out_flag_cols len cell_of_flag_def vec_length split: if_splits)
  have eff: "get_dt ?out ''_EffectiveResolutionDT'' ! i = get_dt ?out ''_RespondedOnDT'' ! i"
    using m by (subst out_effective) (simp add: nth_loc_assign len assms(2) vec_length)
  from m obtain x where x: "get_dt ?out ''_RespondedOnDT'' ! i = Some x"
    by (auto simp: nth_responded_after_raised len assms(2))
  have car: "safe_get ?out ''Close After Response (Hrs)'' ! i = Num 0"
    using assms(2) eff x
    by (simp add: out_close_after_response Let_def len nth_np_where nth_vand nth_notna nth_cmp
        cmp_dt_def nth_hours_between hours_diff_def cell_of_float_def vec_length)
  from eff x car show ?thesis by simp
qed

theorem responded_not_closed_is_resolved_witness:
  "safe_get (add_derived_columns example_lib example_df) ''_RespondedNotClosed_Flag'' ! 1 = Num 1 \<and>
   get_dt (add_derived_columns example_lib example_df) ''_EffectiveResolutionDT'' ! 1
     = Some 1704153600 \<and>
   safe_get (add_derived_columns example_lib example_df) ''Close After Response (Hrs)'' ! 1
     = Num 0"
proof -
  have i: "1 < nrows example_df" by (simp add: example_nrows)
  have f: "safe_get (add_derived_columns example_lib example_df) ''_RespondedNotClosed_Flag'' ! 1
             = Num 1"
    by (simp add: example_flag)
  from responded_not_closed_is_resolved[OF example_wf i f] f show ?thesis
    by (simp add: example_instants)
qed

text \<open>
  Claim C7: in every row, the strict flag says that rejection and closing instants are both
  present; the R2C duration is present exactly then, and is the time from rejection to
  closing in hours, or 0 when that difference is negative.
\<close>

theorem r2c_hours_clamped:
  assumes "well_formed df" and "i < nrows df"
  shows "safe_get (add_derived_columns L df) ''_R2C_Strict_Flag'' ! i =
           cell_of_flag (get_dt (add_derived_columns L df) ''_RejectedOnDT'' ! i \<noteq> None \<and>
                         get_dt (add_derived_columns L df) ''_ClosedOnDT'' ! i \<noteq> None) \<and>
         safe_get (add_derived_columns L df) ''R2C Hours (>=0)'' ! i =
           (case get_dt (add_derived_columns L df) ''_RejectedOnDT'' ! i of
              None \<Rightarrow> NaN
            | Some r \<Rightarrow>
                (case get_dt (add_derived_columns L df) ''_ClosedOnDT'' ! i of
                   None \<Rightarrow> NaN
                 | Some c \<Rightarrow> Num (max (real_of_int (c - r) / 3600) 0)))"
  using assms(2)
  by (simp add: out_r2c_strict Let_def out_lengths[OF assms(1)] nth_np_where nth_vand nth_notna
      nth_hours_between hours_diff_def cell_of_float_def isfinite_def maximum0_def vec_length
      split: option.splits)

theorem r2c_hours_clamped_witness:
  "safe_get (add_derived_columns example_lib example_df) ''_R2C_Strict_Flag'' ! 0 = Num 1 \<and>
   safe_get (add_derived_columns example_lib example_df) ''R2C Hours (>=0)'' ! 0 = Num 0 \<and>
   safe_get (add_derived_columns example_lib example_df) ''_R2C_Strict_Flag'' ! 1 = Num 0 \<and>
   safe_get (add_derived_columns example_lib example_df) ''R2C Hours (>=0)'' ! 1 = NaN"
  using r2c_hours_clamped[OF example_wf, of 0 example_lib]
    r2c_hours_clamped[OF example_wf, of 1 example_lib]
  by (simp add: example_instants example_nrows cell_of_flag_def)

section \<open>The SLA flag and its rate\<close>

text \<open>
  Claim C3: in every row, the SLA cell is 1 when effective resolution and deadline are both
  present and the resolution is not after the deadline, 0 when both are present and it is
  after, and missing (neither 1 nor 0) when either instant is absent. The SLA rate of the
  metrics header is computed and is 100 times the number of rows that met the deadline
  divided by the number of rows whose SLA cell is known; rows with a missing cell are in
  neither count, and with no known row there is no rate.
\<close>

theorem sla_met_ternary_and_rate:
  assumes "well_formed df"
  shows "(\<forall>i<nrows df.
           safe_get (add_derived_columns L df) ''SLA Met'' ! i =
             (case get_dt (add_derived_columns L df) ''_EffectiveResolutionDT'' ! i of
                None \<Rightarrow> NaN
              | Some e \<Rightarrow>
                  (case get_dt (add_derived_columns L df) ''_DeadlineDT'' ! i of
                     None \<Rightarrow> NaN
                   | Some d \<Rightarrow> Num (if e \<le> d then 1 else 0)))) \<and>
         sla_rate (add_derived_columns L df) =
           Inr (let rows = zip (get_dt (add_derived_columns L df) ''_EffectiveResolutionDT'')
                             (get_dt (add_derived_columns L df) ''_DeadlineDT'');
                    known = filter (\<lambda>(e, d). e \<noteq> None \<and> d \<noteq> None) rows;
                    met = filter (\<lambda>(e, d). cmp_dt (\<lambda>x y. x \<le> y) e d) rows
                in if known = [] then None
                   else Some (real (length met) / real (length known) * 100))"
proof -
  let ?out = "add_derived_columns L df"
  let ?e = "get_dt ?out ''_EffectiveResolutionDT''"
  let ?d = "get_dt ?out ''_DeadlineDT''"
  note len = out_lengths[OF assms, of L]
  have ed: "length ?e = length ?d" by (simp add: len)
  have col: "safe_get ?out ''SLA Met'' = map cell_of_float
           (map (\<lambda>(x, y). if x \<noteq> None \<and> y \<noteq> None
                      then float_of_bool (cmp_dt (\<lambda>x y. x \<le> y) x y) else None) (zip ?e ?d))"
    by (simp only: out_sla_met Let_def sla_column_rows[OF ed])
  have rows: "\<forall>i<nrows df. safe_get ?out ''SLA Met'' ! i =
             (case ?e ! i of None \<Rightarrow> NaN
              | Some e \<Rightarrow> (case ?d ! i of None \<Rightarrow> NaN
                   | Some d \<Rightarrow> Num (if e \<le> d then 1 else 0)))"
    unfolding col
    by (auto simp: len cell_of_float_def float_of_bool_def cmp_dt_def split: option.splits)
  have has: "has_col ?out ''SLA Met''" by (simp add: out_has_col)
  from rows sla_rate_of_rows[OF has col] show ?thesis by (simp only: Let_def)
qed

theorem sla_met_ternary_and_rate_witness:
  "safe_get (add_derived_columns example_lib example_df) ''SLA Met'' ! 0 = Num 1 \<and>
   safe_get (add_derived_columns example_lib example_df) ''SLA Met'' ! 1 = NaN \<and>
   safe_get (add_derived_columns example_lib example_df) ''SLA Met'' ! 2 = NaN \<and>
   safe_get (add_derived_columns example_lib example_df) ''SLA Met'' ! 3 = Num 0 \<and>
   sla_rate (add_derived_columns example_lib example_df) = Inr (Some 50)"
  using sla_met_ternary_and_rate[OF example_wf, of example_lib, THEN conjunct1, rule_format, of 0]
    sla_met_ternary_and_rate[OF example_wf, of example_lib, THEN conjunct1, rule_format, of 1]
    sla_met_ternary_and_rate[OF example_wf, of example_lib, THEN conjunct1, rule_format, of 2]
    sla_met_ternary_and_rate[OF example_wf, of example_lib, THEN conjunct1, rule_format, of 3]
    sla_met_ternary_and_rate[OF example_wf, of example_lib, THEN conjunct2]
  by (simp add: example_instants example_effective example_nrows cmp_dt_def)


section \<open>Cost reconciliation\<close>

text \<open>
  Claim C8: in every row, the total cost after the pass is the number read from the total
  cost cell when it reads as a number; otherwise it is the sum of those of the four
  component cells (labour, material, machinery, other) that read as numbers, and it is
  missing when none of them does. A component column that the input lacks counts as missing.
\<close>

theorem total_cost_reconciled:
  assumes "well_formed df" and "i < nrows df"
  shows "safe_get (add_derived_columns L df) ''Total Cost'' ! i =
     cell_of_float
       (case to_numeric L (safe_get df ''Total Cost'' ! i) of
          Some v \<Rightarrow> Some v
        | None \<Rightarrow>
            sum_min_count1
              [to_numeric L (safe_get df ''Labour Cost'' ! i),
               to_numeric L (safe_get df ''Material Cost'' ! i),
               to_numeric L (safe_get df ''Machinery Cost'' ! i),
               to_numeric L (safe_get df ''Other Cost'' ! i)])"
  using assms
  by (simp add: out_total_cost nth_fillna length_fillna length_sum_axis1 nth_sum_axis1
      length_safe_get row_of_def cost_parts_def split: option.splits)

theorem total_cost_reconciled_witness:
  "safe_get (add_derived_columns example_lib example_df) ''Total Cost'' ! 0 = Num 150 \<and>
   safe_get (add_derived_columns example_lib example_df) ''Total Cost'' ! 1 = Num 500 \<and>
   safe_get (add_derived_columns example_lib example_df) ''Total Cost'' ! 2 = NaN \<and>
   safe_get (add_derived_columns example_lib example_df) ''Total Cost'' ! 3 = Num 5"
  using total_cost_reconciled[OF example_wf, of 0 example_lib]
    total_cost_reconciled[OF example_wf, of 1 example_lib]
    total_cost_reconciled[OF example_wf, of 2 example_lib]
    total_cost_reconciled[OF example_wf, of 3 example_lib]
  by (simp add: example_nrows example_costs to_numeric_def example_lib_def sum_min_count1_def
      List.map_filter_simps cell_of_float_def)


section \<open>The last status event\<close>

text \<open>
  Claim C2, as the code has it: in every row, the last status change is the maximum of the
  present candidates (closing, rejection, response, effective resolution); when a candidate is
  present, the label is that of the first candidate, in the order Closed, Rejected, Responded,
  Effective, that equals this maximum; and a row whose closing and response instants are equal
  is labelled \<^verbatim>\<open>Closed\<close> provided that no rejection is later than them. The label column
  is the one written by the second labelling, which replaces the first.
\<close>

theorem last_status_event_by_priority:
  assumes "well_formed df" and "i < nrows df"
  shows "get_dt (add_derived_columns L df) ''_LastStatusChangeDT'' ! i =
           spec_latest [get_dt (add_derived_columns L df) ''_ClosedOnDT'' ! i,
                        get_dt (add_derived_columns L df) ''_RejectedOnDT'' ! i,
                        get_dt (add_derived_columns L df) ''_RespondedOnDT'' ! i,
                        get_dt (add_derived_columns L df) ''_EffectiveResolutionDT'' ! i] \<and>
         (get_dt (add_derived_columns L df) ''_ClosedOnDT'' ! i \<noteq> None \<or>
          get_dt (add_derived_columns L df) ''_RejectedOnDT'' ! i \<noteq> None \<or>
          get_dt (add_derived_columns L df) ''_RespondedOnDT'' ! i \<noteq> None \<or>
          get_dt (add_derived_columns L df) ''_EffectiveResolutionDT'' ! i \<noteq> None \<longrightarrow>
            Some (safe_get (add_derived_columns L df) ''_LastStatusEvent'' ! i) =
              map_option Str
                (spec_last_status_event
                   (get_dt (add_derived_columns L df) ''_ClosedOnDT'' ! i)
                   (get_dt (add_derived_columns L df) ''_RejectedOnDT'' ! i)
                   (get_dt (add_derived_columns L df) ''_RespondedOnDT'' ! i)
                   (get_dt (add_derived_columns L df) ''_EffectiveResolutionDT'' ! i))) \<and>
         (\<forall>t. get_dt (add_derived_columns L df) ''_ClosedOnDT'' ! i = Some t \<and>
              get_dt (add_derived_columns L df) ''_RespondedOnDT'' ! i = Some t \<and>
              (\<forall>u. get_dt (add_derived_columns L df) ''_RejectedOnDT'' ! i = Some u \<longrightarrow> u \<le> t)
            \<longrightarrow> safe_get (add_derived_columns L df) ''_LastStatusEvent'' ! i = Str ''Closed'')"
proof -
  let ?out = "add_derived_columns L df"
  let ?c = "get_dt ?out ''_ClosedOnDT'' ! i"
  let ?j = "get_dt ?out ''_RejectedOnDT'' ! i"
  let ?r = "get_dt ?out ''_RespondedOnDT'' ! i"
  let ?e = "get_dt ?out ''_EffectiveResolutionDT'' ! i"
  let ?m = "get_dt ?out ''_LastStatusChangeDT'' ! i"
  have latest: "?m = spec_latest [?c, ?j, ?r, ?e]"
    by (simp only: out_latest_row[OF assms] max_skipna_spec)
  note label = out_label_row[OF assms, of L]
  have some: "?c \<noteq> None \<or> ?j \<noteq> None \<or> ?r \<noteq> None \<or> ?e \<noteq> None \<Longrightarrow>
      Some (safe_get ?out ''_LastStatusEvent'' ! i) =
        map_option Str (spec_last_status_event ?c ?j ?r ?e)"
  proof -
    assume "?c \<noteq> None \<or> ?j \<noteq> None \<or> ?r \<noteq> None \<or> ?e \<noteq> None"
    then obtain m where m: "spec_latest [?c, ?j, ?r, ?e] = Some m"
      using spec_latest_none[of ?c ?j ?r ?e] by (cases "spec_latest [?c, ?j, ?r, ?e]") auto
    from label_of_latest[OF m] show ?thesis
      unfolding label latest m by (cases "spec_last_status_event ?c ?j ?r ?e") auto
  qed
  have tie: "safe_get ?out ''_LastStatusEvent'' ! i = Str ''Closed''"
    if t: "?c = Some t" "?r = Some t" "\<forall>u. ?j = Some u \<longrightarrow> u \<le> t" for t
  proof -
    have e: "?e = Some t" using out_effective_closed[OF assms, of L] t(1) by simp
    obtain m where m: "spec_latest [?c, ?j, ?r, ?e] = Some m"
      using spec_latest_none[of ?c ?j ?r ?e] t(1)
      by (cases "spec_latest [?c, ?j, ?r, ?e]") auto
    from spec_latest_4[OF m] t e have "m = t" by (auto simp: order_antisym)
    then show ?thesis unfolding label latest m using t(1) by (simp add: cmp_dt_def)
  qed
  from latest some tie show ?thesis by blast
qed

theorem last_status_event_by_priority_witness:
  "safe_get (add_derived_columns example_lib example_df) ''_LastStatusEvent'' ! 3 = Str ''Closed'' \<and>
   get_dt (add_derived_columns example_lib example_df) ''_LastStatusChangeDT'' ! 1 =
     Some 1704153600 \<and>
   safe_get (add_derived_columns example_lib example_df) ''_LastStatusEvent'' ! 1 =
     Str ''Responded''"
proof -
  have i: "3 < nrows example_df" "1 < nrows example_df" by (simp_all add: example_nrows)
  have v: "spec_latest [None, None, Some 1704153600, Some 1704153600] = Some 1704153600"
    "spec_last_status_event None None (Some 1704153600) (Some 1704153600) = Some ''Responded''"
    by (simp_all add: spec_last_status_event_def spec_latest_def List.map_filter_simps)
  from last_status_event_by_priority[OF example_wf i(1), of example_lib]
    last_status_event_by_priority[OF example_wf i(2), of example_lib]
  show ?thesis
    by (simp add: example_instants example_effective v)
qed

text \<open>
  Without the proviso the last part fails: in the first record of the register, closing and
  response instants are equal and the rejection is one day later, and the label is
  \<^verbatim>\<open>Rejected\<close>.
\<close>

theorem last_status_event_later_rejection:
  "get_dt (add_derived_columns example_lib example_df) ''_ClosedOnDT'' ! 0 = Some 1704153600 \<and>
   get_dt (add_derived_columns example_lib example_df) ''_RespondedOnDT'' ! 0 = Some 1704153600 \<and>
   get_dt (add_derived_columns example_lib example_df) ''_RejectedOnDT'' ! 0 = Some 1704240000 \<and>
   get_dt (add_derived_columns example_lib example_df) ''_LastStatusChangeDT'' ! 0 =
     Some 1704240000 \<and>
   safe_get (add_derived_columns example_lib example_df) ''_LastStatusEvent'' ! 0 =
     Str ''Rejected''"
proof -
  have i: "0 < nrows example_df" by (simp add: example_nrows)
  have m: "get_dt (add_derived_columns example_lib example_df) ''_LastStatusChangeDT'' ! 0 =
     Some 1704240000"
    by (simp add: out_latest_row[OF example_wf i] example_instants example_effective
        max_skipna_def List.map_filter_simps)
  show ?thesis
    by (simp add: out_label_row[OF example_wf i] m example_instants example_effective cmp_dt_def)
qed


section \<open>Idempotence of the derivation\<close>

text \<open>
  Claim C9: for every input table, the derivation applied to the table it has already
  enriched returns that table again; so every derived column of the second pass is the
  column of the first pass. This holds for the total cost as well, the one raw column that
  the first pass rewrites: a number it has stored reads as the same number, and a row it has
  left missing has no component to sum.
\<close>

theorem add_derived_columns_idempotent:
  "add_derived_columns L (add_derived_columns L df) = add_derived_columns L df"
  by (rule add_derived_columns_fixpoint)
    (rule ensure_cols_out location_fixed_out datetimes_out effective_resolution_out timings_out
      responded_not_closed_out close_after_response_out sla_met_out total_cost_fallback_out
      r2c_flag_out r2c_strict_out last_status_change_out last_status_event_out)+

theorem add_derived_columns_idempotent_witness:
  "safe_get (add_derived_columns example_lib (add_derived_columns example_lib example_df))
     ''_RespondedNotClosed_Flag'' = [Num 0, Num 1, Num 0, Num 0] \<and>
   get_dt (add_derived_columns example_lib (add_derived_columns example_lib example_df))
     ''_ClosedOnDT'' = [Some 1704153600, None, None, Some 1704153600]"
  using add_derived_columns_idempotent[of example_lib example_df]
  by (simp add: example_flag example_instants)


end
